theory Spec2Isabelle
  imports Main "HOL-Library.Multiset" "HOL-Library.AList" "HOL-Library.List_Lexorder"
    "HOL-Library.Char_ord"
begin

section \<open>Element trees\<close>

text \<open>
  An \<^verbatim>\<open>xml.etree.ElementTree.Element\<close> is an object with a tag, an attribute dictionary,
  a text, a tail and an ordered list of children. Objects have an identity: \<open>oid\<close> is the
  identity of the element and \<open>dict_oid\<close> that of its attribute dictionary, so that two
  trees with the same content can still be told apart, and sharing between trees is
  visible as a common identity. A namespaced tag is the string \<^verbatim>\<open>{uri}local\<close>.
\<close>

datatype dict = Dict (dict_oid: nat) (items: "(string \<times> string) list")

datatype elem =
  Element (oid: nat) (tag: string) (attrib: dict)
    (elem_text: "string option") (elem_tail: "string option") (children: "elem list")

definition GPX_NAMESPACE :: string where
  "GPX_NAMESPACE = ''http://www.topografix.com/GPX/1/1''"

text \<open>The name \<^verbatim>\<open>gpx:local\<close> resolved with \<^verbatim>\<open>ns = {"gpx": GPX_NAMESPACE}\<close>.\<close>

definition gpx :: "string \<Rightarrow> string" where
  "gpx local = ''{'' @ GPX_NAMESPACE @ ''}'' @ local"

text \<open>\<^verbatim>\<open>Element.iter()\<close>: the element and all its descendants, in document order.\<close>

fun iter :: "elem \<Rightarrow> elem list" where
  "iter (Element i t a x l cs) = Element i t a x l cs # concat (map iter cs)"

text \<open>
  \<^verbatim>\<open>root.findall(".//gpx:t", ns)\<close>: every element below the root, at any depth, whose
  tag is the qualified name, in document order; the root itself is not a candidate.
\<close>

definition findall_descendants :: "string \<Rightarrow> elem \<Rightarrow> elem list" where
  "findall_descendants t root = filter (\<lambda>e. tag e = t) (concat (map iter (children root)))"

text \<open>\<^verbatim>\<open>e.find("gpx:t", ns)\<close>: the first direct child with that tag, or \<^verbatim>\<open>None\<close>.\<close>

definition find_child :: "string \<Rightarrow> elem \<Rightarrow> elem option" where
  "find_child t e = List.find (\<lambda>c. tag c = t) (children e)"

section \<open>Timestamps\<close>

text \<open>
  A \<^verbatim>\<open>datetime\<close> value: \<open>wall\<close> is the wall-clock reading (year, month, day, hour,
  minute, second, microsecond) counted in microseconds on the proleptic Gregorian
  calendar, and \<open>utcoffset\<close> is \<open>None\<close> for a naive value and the offset from UTC in
  microseconds for an aware one. Python compares the tuples of calendar fields, which
  for the fields of a datetime is the order of these counts.
\<close>

datatype datetime = Datetime (wall: int) (utcoffset: "int option")

datatype exn = FileNotFoundError string | ParseError string | TypeError | OSError string

text \<open>
  \<^verbatim>\<open>a < b\<close> on datetimes. With equal offsets (both naive included) the wall-clock
  readings are compared; two aware values with different offsets are compared after
  subtracting the offsets; a naive value against an aware one raises \<^verbatim>\<open>TypeError\<close>.
\<close>

fun dt_lt :: "datetime \<Rightarrow> datetime \<Rightarrow> exn + bool" where
  "dt_lt (Datetime w1 o1) (Datetime w2 o2) =
     (if o1 = o2 then Inr (w1 < w2)
      else (case (o1, o2) of
              (Some a, Some b) \<Rightarrow> Inr (w1 - a < w2 - b)
            | _ \<Rightarrow> Inl TypeError))"

text \<open>The moment a datetime denotes: the wall-clock reading moved to UTC when aware.\<close>

fun instant :: "datetime \<Rightarrow> int" where
  "instant (Datetime w None) = w"
| "instant (Datetime w (Some off)) = w - off"

definition aware :: "datetime \<Rightarrow> bool" where
  "aware d = (utcoffset d \<noteq> None)"

section \<open>The merger\<close>

text \<open>
  The fields \<open>track_points\<close> and \<open>metadata\<close> are those of the \<^verbatim>\<open>GPXMerger\<close> object; a
  track point is the triple \<^verbatim>\<open>(timestamp, element, file_path)\<close>. The other fields are the
  process around it: the lines printed to the two streams, the documents written
  (path and tree handed to \<^verbatim>\<open>tree.write\<close>), and the next free object identity.
\<close>

type_synonym point = "datetime \<times> elem \<times> string"

record state =
  track_points :: "point list"
  metadata :: "(string \<times> string option) list"
  stdout :: "string list"
  stderr :: "string list"
  written :: "(string \<times> elem) list"
  next_oid :: nat

subsection \<open>\<^verbatim>\<open>sort_by_timestamp\<close>\<close>

text \<open>
  \<^verbatim>\<open>self.track_points.sort(key=lambda x: x[0])\<close>. \<^verbatim>\<open>list.sort\<close> is a stable comparison
  sort that only ever asks \<^verbatim>\<open>a < b\<close> of two keys and lets an exception of the comparison
  escape. It is rendered as the stable insertion sort: an element goes in front of the
  first element of the sorted rest that is not smaller than it.
\<close>

fun insert_by_key :: "point \<Rightarrow> point list \<Rightarrow> exn + point list" where
  "insert_by_key x [] = Inr [x]"
| "insert_by_key x (y # ys) =
     (case dt_lt (fst y) (fst x) of
        Inl e \<Rightarrow> Inl e
      | Inr True \<Rightarrow> (case insert_by_key x ys of Inl e \<Rightarrow> Inl e | Inr zs \<Rightarrow> Inr (y # zs))
      | Inr False \<Rightarrow> Inr (x # y # ys))"

fun list_sort :: "point list \<Rightarrow> exn + point list" where
  "list_sort [] = Inr []"
| "list_sort (x # xs) =
     (case list_sort xs of Inl e \<Rightarrow> Inl e | Inr ys \<Rightarrow> insert_by_key x ys)"

definition sort_by_timestamp :: "state \<Rightarrow> exn + state" where
  "sort_by_timestamp st =
     (case list_sort (track_points st) of
        Inl e \<Rightarrow> Inl e
      | Inr ps \<Rightarrow> Inr (st\<lparr>track_points := ps\<rparr>))"

text \<open>The key of a track point as a number, and lists whose keys can all be compared.\<close>

definition key_of :: "point \<Rightarrow> int" where
  "key_of p = instant (fst p)"

definition same_kind :: "point list \<Rightarrow> bool" where
  "same_kind ps =
     (list_all (\<lambda>p. aware (fst p)) ps \<or> list_all (\<lambda>p. \<not> aware (fst p)) ps)"

subsection \<open>Text helpers\<close>

text \<open>\<^verbatim>\<open>text.replace("Z", "+00:00")\<close>: every occurrence of the letter is replaced.\<close>

definition replace_Z :: "string \<Rightarrow> string" where
  "replace_Z s = concat (map (\<lambda>c. if c = CHR ''Z'' then ''+00:00'' else [c]) s)"

text \<open>A text between single quotes, as the f-strings of the messages write it.\<close>

definition quoted :: "string \<Rightarrow> string" where
  "quoted s = CHR 0x27 # s @ [CHR 0x27]"

text \<open>\<^verbatim>\<open>str(n)\<close> of a natural number.\<close>

fun str_nat :: "nat \<Rightarrow> string" where
  "str_nat n =
     (if n < 10 then [''0123456789'' ! n]
      else str_nat (n div 10) @ [''0123456789'' ! (n mod 10)])"

declare str_nat.simps [simp del]

subsection \<open>\<^verbatim>\<open>_extract_metadata\<close>\<close>

text \<open>
  \<^verbatim>\<open>self.metadata\<close> is a dictionary with the keys \<^verbatim>\<open>"name"\<close> and \<^verbatim>\<open>"desc"\<close>; a value is
  the text of an element, which is \<^verbatim>\<open>None\<close> for an element without text. It is kept as
  an association list in insertion order, empty exactly when the dictionary is.
\<close>

definition extract_metadata :: "elem \<Rightarrow> state \<Rightarrow> state" where
  "extract_metadata root st =
     (case find_child (gpx ''metadata'') root of
        None \<Rightarrow> st
      | Some md \<Rightarrow>
          (let st1 = (case find_child (gpx ''name'') md of
                        None \<Rightarrow> st
                      | Some name \<Rightarrow>
                          st\<lparr>metadata := AList.update ''name'' (elem_text name) (metadata st)\<rparr>)
           in (case find_child (gpx ''desc'') md of
                 None \<Rightarrow> st1
               | Some desc \<Rightarrow>
                   st1\<lparr>metadata := AList.update ''desc'' (elem_text desc) (metadata st1)\<rparr>)))"

subsection \<open>\<^verbatim>\<open>_extract_track_points\<close>\<close>

text \<open>
  The body of either loop, for one candidate element. \<open>fromisoformat\<close> stands for
  \<^verbatim>\<open>datetime.fromisoformat\<close>, a function of the Python library: it returns the datetime
  or \<open>None\<close> where the library raises \<^verbatim>\<open>ValueError\<close>. A text that is \<^verbatim>\<open>None\<close> or empty
  is falsy.
\<close>

definition extract_point ::
  "(string \<Rightarrow> datetime option) \<Rightarrow> string \<Rightarrow> elem \<Rightarrow> state \<Rightarrow> state" where
  "extract_point fromisoformat file_path pt st =
     (case find_child (gpx ''time'') pt of
        None \<Rightarrow> st
      | Some time_elem \<Rightarrow>
          (case elem_text time_elem of
             None \<Rightarrow> st
           | Some t \<Rightarrow>
               if t = [] then st
               else (case fromisoformat (replace_Z t) of
                       Some timestamp \<Rightarrow>
                         st\<lparr>track_points := track_points st @ [(timestamp, pt, file_path)]\<rparr>
                     | None \<Rightarrow>
                         st\<lparr>stderr := stderr st @
                           [''Warning: Could not parse timestamp '' @ quoted t @
                            '' from '' @ file_path]\<rparr>)))"

text \<open>First the loop over the \<^verbatim>\<open>trkpt\<close> elements, then the loop over the \<^verbatim>\<open>wpt\<close> elements.\<close>

definition extract_track_points ::
  "(string \<Rightarrow> datetime option) \<Rightarrow> elem \<Rightarrow> string \<Rightarrow> state \<Rightarrow> state" where
  "extract_track_points fromisoformat root file_path st =
     fold (extract_point fromisoformat file_path) (findall_descendants (gpx ''wpt'') root)
       (fold (extract_point fromisoformat file_path) (findall_descendants (gpx ''trkpt'') root) st)"

subsection \<open>\<^verbatim>\<open>parse_gpx_file\<close>\<close>

text \<open>
  What a path holds when the program reads it: nothing, bytes that are not well-formed
  XML (\<^verbatim>\<open>ET.parse\<close> raises \<^verbatim>\<open>ParseError\<close> with the given message), or a document, given
  by the root of its parsed tree.
\<close>

datatype content = Missing | NotWellFormed string | Document elem

definition parse_gpx_file ::
  "(string \<Rightarrow> datetime option) \<Rightarrow> (string \<Rightarrow> content) \<Rightarrow> string \<Rightarrow> state \<Rightarrow> exn + state" where
  "parse_gpx_file fromisoformat fs file_path st =
     (case fs file_path of
        Missing \<Rightarrow> Inl (FileNotFoundError (''GPX file not found: '' @ file_path))
      | NotWellFormed e \<Rightarrow>
          Inl (ParseError (''Invalid GPX file '' @ quoted file_path @ '': '' @ e))
      | Document root \<Rightarrow>
          Inr (extract_track_points fromisoformat root file_path
                 (if metadata st = [] then extract_metadata root st else st)))"

subsection \<open>\<^verbatim>\<open>_clone_element\<close>\<close>

text \<open>
  \<^verbatim>\<open>ET.Element(elem.tag, elem.attrib)\<close> makes a new element with a new dictionary holding
  the same items; text and tail are assigned, and the clones of the children are
  appended in order. The second argument is the next free object identity, the second
  result the next free one afterwards.
\<close>

fun clone_element :: "elem \<Rightarrow> nat \<Rightarrow> elem \<times> nat"
  and clone_children :: "elem list \<Rightarrow> nat \<Rightarrow> elem list \<times> nat" where
  "clone_element (Element i t a x l cs) n =
     (case clone_children cs (n + 2) of
        (cs', n') \<Rightarrow> (Element n t (Dict (n + 1) (items a)) x l cs', n'))"
| "clone_children [] n = ([], n)"
| "clone_children (c # cs) n =
     (case clone_element c n of
        (c', n1) \<Rightarrow> (case clone_children cs n1 of (cs', n2) \<Rightarrow> (c' # cs', n2)))"

subsection \<open>\<^verbatim>\<open>merge_to_file\<close>\<close>

text \<open>\<^verbatim>\<open>self.metadata.get(key, default)\<close>.\<close>

definition metadata_get :: "state \<Rightarrow> string \<Rightarrow> string \<Rightarrow> string option" where
  "metadata_get st k dflt =
     (case map_of (metadata st) k of None \<Rightarrow> Some dflt | Some v \<Rightarrow> v)"

text \<open>
  \<open>now\<close> is the text of \<^verbatim>\<open>datetime.utcnow().isoformat()\<close>. The eight elements of the
  skeleton are created in the order of the source, each with its empty dictionary, then
  the clones; the tree is given as it stands when \<^verbatim>\<open>tree.write\<close> is called.
  \<^verbatim>\<open>tree.write\<close> opens the output path, which can fail (a missing directory, no
  permission): \<open>open_error\<close> gives the exception that opening a path for writing raises,
  if any. Nothing in the program catches it, and the two lines that report the merge are
  printed only after the write.
\<close>

definition merge_to_file ::
  "(string \<Rightarrow> exn option) \<Rightarrow> string \<Rightarrow> string \<Rightarrow> state \<Rightarrow> exn + state" where
  "merge_to_file open_error now output_path st =
     (if track_points st = [] then
        Inr (st\<lparr>stderr := stderr st @ [''Error: No track points found to merge.'']\<rparr>)
      else
        (let n = next_oid st;
             name = Element (n + 4) ''name'' (Dict (n + 5) [])
                      (metadata_get st ''name'' ''Merged GPX Track'') None [];
             desc = Element (n + 6) ''desc'' (Dict (n + 7) [])
                      (metadata_get st ''desc'' ''Merged from multiple GPX files'') None [];
             time = Element (n + 8) ''time'' (Dict (n + 9) []) (Some (now @ ''Z'')) None [];
             metadata = Element (n + 2) ''metadata'' (Dict (n + 3) []) None None
                          [name, desc, time];
             trk_name = Element (n + 12) ''name'' (Dict (n + 13) [])
                          (Some ''Merged Track'') None []
         in (case clone_children
                    (map (\<lambda>(timestamp, point_elem, source_file). point_elem) (track_points st))
                    (n + 16) of
               (new_points, n') \<Rightarrow>
                 (let trk_seg = Element (n + 14) ''trkseg'' (Dict (n + 15) []) None None
                                  new_points;
                      trk = Element (n + 10) ''trk'' (Dict (n + 11) []) None None
                              [trk_name, trk_seg];
                      root = Element n ''gpx''
                               (Dict (n + 1)
                                  [(''version'', ''1.1''),
                                   (''creator'', ''GPX Merger Script''),
                                   (''xmlns'', GPX_NAMESPACE)])
                               None None [metadata, trk]
                  in (case open_error output_path of
                        Some e \<Rightarrow> Inl e
                      | None \<Rightarrow>
                          Inr (st\<lparr>written := written st @ [(output_path, root)],
                                 stdout := stdout st @
                                   [[CHR 0xE2, CHR 0x9C, CHR 0x93] @
                                      '' Merged GPX file created: '' @ output_path,
                                    ''  Total track points merged: '' @
                                      str_nat (length (track_points st))],
                                 next_oid := n'\<rparr>))))))"

subsection \<open>\<^verbatim>\<open>main\<close>\<close>

text \<open>
  How the process ends: \<^verbatim>\<open>main\<close> returns, \<^verbatim>\<open>sys.exit(n)\<close> is called, or an exception
  that nothing catches ends it with a traceback. The exit status of the process follows.
\<close>

datatype outcome = Returned | SystemExit nat | Uncaught exn

fun exit_status :: "outcome \<Rightarrow> nat" where
  "exit_status Returned = 0"
| "exit_status (SystemExit n) = n"
| "exit_status (Uncaught e) = 1"

text \<open>\<^verbatim>\<open>str(e)\<close> of an exception raised with one message.\<close>

fun str_exn :: "exn \<Rightarrow> string" where
  "str_exn (FileNotFoundError m) = m"
| "str_exn (ParseError m) = m"
| "str_exn TypeError = ''can'' @ [CHR 0x27] @ ''t compare offset-naive and offset-aware datetimes''"
| "str_exn (OSError m) = m"

text \<open>The loop of \<^verbatim>\<open>main\<close> over the input files.\<close>

fun parse_files ::
  "(string \<Rightarrow> datetime option) \<Rightarrow> (string \<Rightarrow> content) \<Rightarrow> string list \<Rightarrow> state
     \<Rightarrow> outcome \<times> state" where
  "parse_files fromisoformat fs [] st = (Returned, st)"
| "parse_files fromisoformat fs (gpx_file # rest) st =
     (let st1 = st\<lparr>stdout := stdout st @ [''Processing: '' @ gpx_file]\<rparr> in
        (case parse_gpx_file fromisoformat fs gpx_file st1 of
           Inl e \<Rightarrow> (SystemExit 1, st1\<lparr>stderr := stderr st1 @ [''Error: '' @ str_exn e]\<rparr>)
         | Inr st2 \<Rightarrow> parse_files fromisoformat fs rest st2))"

text \<open>The state in which \<^verbatim>\<open>main\<close> starts: a new \<^verbatim>\<open>GPXMerger\<close>, nothing printed or written.\<close>

definition initial :: "nat \<Rightarrow> state" where
  "initial n = \<lparr>track_points = [], metadata = [], stdout = [], stderr = [],
                 written = [], next_oid = n\<rparr>"

text \<open>
  \<^verbatim>\<open>main\<close> from the point where the patterns of the command line have been expanded
  to \<open>input_files\<close>; \<open>output\<close> is \<^verbatim>\<open>args.output\<close>.
\<close>

definition main ::
  "(string \<Rightarrow> datetime option) \<Rightarrow> (string \<Rightarrow> content) \<Rightarrow> (string \<Rightarrow> exn option) \<Rightarrow> string
     \<Rightarrow> string list \<Rightarrow> string \<Rightarrow> state \<Rightarrow> outcome \<times> state" where
  "main fromisoformat fs open_error now input_files output st =
     (if input_files = [] then
        (SystemExit 1, st\<lparr>stderr := stderr st @ [''Error: No valid GPX files found.'']\<rparr>)
      else
        (let st1 = st\<lparr>stdout := stdout st @
                     (''Found '' @ str_nat (length input_files) @ '' GPX file(s) to merge:'') #
                     map (\<lambda>f. ''  - '' @ f) input_files\<rparr>
         in (case parse_files fromisoformat fs input_files st1 of
               (Returned, st2) \<Rightarrow>
                 (case sort_by_timestamp st2 of
                    Inl e \<Rightarrow> (Uncaught e, st2)
                  | Inr st3 \<Rightarrow>
                      (case merge_to_file open_error now output st3 of
                         Inl e \<Rightarrow> (Uncaught e, st3)
                       | Inr st4 \<Rightarrow> (Returned, st4)))
             | (out, st2) \<Rightarrow> (out, st2))))"

subsection \<open>What a document contributes\<close>

text \<open>
  The outcome of the loop body for one candidate, stated on its own: the text of the
  timestamp when the element has a \<^verbatim>\<open>time\<close> child with a non-empty text, the track point
  it yields when that text parses, and the warning it yields when it does not.
\<close>

definition timestamp_text :: "elem \<Rightarrow> string option" where
  "timestamp_text pt =
     (case find_child (gpx ''time'') pt of
        None \<Rightarrow> None
      | Some time_elem \<Rightarrow>
          (case elem_text time_elem of
             None \<Rightarrow> None
           | Some t \<Rightarrow> if t = [] then None else Some t))"

definition point_record ::
  "(string \<Rightarrow> datetime option) \<Rightarrow> string \<Rightarrow> elem \<Rightarrow> point option" where
  "point_record fromisoformat file_path pt =
     (case timestamp_text pt of
        None \<Rightarrow> None
      | Some t \<Rightarrow>
          (case fromisoformat (replace_Z t) of
             None \<Rightarrow> None
           | Some timestamp \<Rightarrow> Some (timestamp, pt, file_path)))"

definition point_warning ::
  "(string \<Rightarrow> datetime option) \<Rightarrow> string \<Rightarrow> elem \<Rightarrow> string option" where
  "point_warning fromisoformat file_path pt =
     (case timestamp_text pt of
        None \<Rightarrow> None
      | Some t \<Rightarrow>
          (case fromisoformat (replace_Z t) of
             None \<Rightarrow> Some (''Warning: Could not parse timestamp '' @ quoted t @
                            '' from '' @ file_path)
           | Some timestamp \<Rightarrow> None))"

definition candidates :: "elem \<Rightarrow> elem list" where
  "candidates root =
     findall_descendants (gpx ''trkpt'') root @ findall_descendants (gpx ''wpt'') root"


text \<open>The track points of one input, in the order in which they are appended.\<close>

definition document_points ::
  "(string \<Rightarrow> datetime option) \<Rightarrow> content \<Rightarrow> string \<Rightarrow> point list" where
  "document_points fromisoformat c file_path =
     (case c of
        Document root \<Rightarrow> List.map_filter (point_record fromisoformat file_path) (candidates root)
      | _ \<Rightarrow> [])"

subsection \<open>A parser for the concrete runs\<close>

text \<open>
  \<^verbatim>\<open>datetime.fromisoformat\<close> on the texts \<^verbatim>\<open>YYYY-MM-DDTHH:MM:SS\<close> with an optional offset
  \<^verbatim>\<open>+HH:MM\<close> or \<^verbatim>\<open>-HH:MM\<close>, the form of a GPX timestamp once \<^verbatim>\<open>Z\<close> has been replaced. The
  library accepts further forms, which this function rejects; it is used for the
  concrete runs only, on texts of this form and on texts no version of the library
  accepts. Everything proved for an arbitrary \<open>fromisoformat\<close> does not depend on it.
  The day count follows \<^verbatim>\<open>_ymd2ord\<close> of the library.
\<close>

definition digit :: "char \<Rightarrow> nat option" where
  "digit c = map_of (zip ''0123456789'' [0, 1, 2, 3, 4, 5, 6, 7, 8, 9]) c"

definition number2 :: "char \<Rightarrow> char \<Rightarrow> nat option" where
  "number2 a b = (case (digit a, digit b) of (Some x, Some y) \<Rightarrow> Some (10 * x + y) | _ \<Rightarrow> None)"

definition is_leap :: "nat \<Rightarrow> bool" where
  "is_leap y = (y mod 4 = 0 \<and> (y mod 100 \<noteq> 0 \<or> y mod 400 = 0))"

definition days_in_month :: "nat \<Rightarrow> nat \<Rightarrow> nat" where
  "days_in_month y m =
     (if m = 2 then (if is_leap y then 29 else 28)
      else if m = 4 \<or> m = 6 \<or> m = 9 \<or> m = 11 then 30 else 31)"

definition days_before_month :: "nat \<Rightarrow> nat \<Rightarrow> nat" where
  "days_before_month y m =
     [0, 0, 31, 59, 90, 120, 151, 181, 212, 243, 273, 304, 334] ! m +
     (if 2 < m \<and> is_leap y then 1 else 0)"

definition ymd2ord :: "nat \<Rightarrow> nat \<Rightarrow> nat \<Rightarrow> nat" where
  "ymd2ord y m d =
     (y - 1) * 365 + (y - 1) div 4 - (y - 1) div 100 + (y - 1) div 400 +
     days_before_month y m + d"

fun parse_offset :: "string \<Rightarrow> int option option" where
  "parse_offset [] = Some None"
| "parse_offset [sg, h1, h2, c, m1, m2] =
     (if (sg = CHR ''+'' \<or> sg = CHR ''-'') \<and> c = CHR '':'' then
        (case (number2 h1 h2, number2 m1 m2) of
           (Some h, Some m) \<Rightarrow>
             if h < 24 \<and> m < 60 then
               Some (Some ((if sg = CHR ''-'' then - 1 else 1) *
                           (int h * 3600 + int m * 60) * 1000000))
             else None
         | _ \<Rightarrow> None)
      else None)"
| "parse_offset _ = None"

definition make_datetime ::
  "nat \<Rightarrow> nat \<Rightarrow> nat \<Rightarrow> nat \<Rightarrow> nat \<Rightarrow> nat \<Rightarrow> int option \<Rightarrow> datetime option" where
  "make_datetime y m d h mi sec off =
     (if 1 \<le> y \<and> 1 \<le> m \<and> m \<le> 12 \<and> 1 \<le> d \<and> d \<le> days_in_month y m \<and>
         h < 24 \<and> mi < 60 \<and> sec < 60 then
        Some (Datetime
          ((((int (ymd2ord y m d) * 24 + int h) * 60 + int mi) * 60 + int sec) * 1000000)
          off)
      else None)"

fun iso_datetime :: "string \<Rightarrow> datetime option" where
  "iso_datetime (y1 # y2 # y3 # y4 # a # m1 # m2 # b # d1 # d2 # t # h1 # h2 # c # i1 # i2 # e #
       s1 # s2 # zone) =
     (if a = CHR ''-'' \<and> b = CHR ''-'' \<and> t = CHR ''T'' \<and> c = CHR '':'' \<and> e = CHR '':'' then
        (case (number2 y1 y2, number2 y3 y4, number2 m1 m2, number2 d1 d2,
               number2 h1 h2, number2 i1 i2, number2 s1 s2, parse_offset zone) of
           (Some yh, Some yl, Some m, Some d, Some h, Some mi, Some sec, Some off) \<Rightarrow>
             make_datetime (100 * yh + yl) m d h mi sec off
         | _ \<Rightarrow> None)
      else None)"
| "iso_datetime _ = None"


section \<open>Sample documents\<close>

text \<open>
  Two documents for the concrete runs. \<^verbatim>\<open>a.gpx\<close> names itself \<^verbatim>\<open>A\<close> and has no description;
  it holds a waypoint at 10:00 UTC ahead of a track with a point at 10:00 UTC (carrying
  an extension in a foreign namespace), one at 09:00 UTC, one with an unreadable time, one
  without a time and one with an empty time. \<^verbatim>\<open>b.gpx\<close> names itself \<^verbatim>\<open>B\<close>,
  describes itself as \<^verbatim>\<open>X\<close> and holds one track point at 12:00 with offset +02:00, the
  same moment as 10:00 UTC. \<^verbatim>\<open>c.gpx\<close> holds one track point, without a time; \<^verbatim>\<open>n.gpx\<close>
  holds one track point at 10:00 without zone; \<^verbatim>\<open>bad.gpx\<close> is not well-formed, and no other
  path exists. Every path can be opened for writing under \<open>writable\<close>.
\<close>

definition leaf :: "nat \<Rightarrow> string \<Rightarrow> string \<Rightarrow> elem" where
  "leaf i t x = Element i t (Dict (i + 1) []) (Some x) None []"

definition node :: "nat \<Rightarrow> string \<Rightarrow> (string \<times> string) list \<Rightarrow> elem list \<Rightarrow> elem" where
  "node i t kvs cs = Element i t (Dict (i + 1) kvs) None None cs"

definition trkpt_a1 :: elem where
  "trkpt_a1 = node 14 (gpx ''trkpt'') [(''lat'', ''1.1''), (''lon'', ''2.1'')]
     [leaf 16 (gpx ''time'') ''2024-01-01T10:00:00Z'',
      node 18 (gpx ''extensions'') []
        [leaf 20 ''{http://www.garmin.com/xmlschemas/TrackPointExtension/v1}hr'' ''72'']]"

definition trkpt_a2 :: elem where
  "trkpt_a2 = node 22 (gpx ''trkpt'') [(''lat'', ''1.2''), (''lon'', ''2.2'')]
     [leaf 24 (gpx ''time'') ''2024-01-01T09:00:00Z'']"

definition trkpt_a3 :: elem where
  "trkpt_a3 = node 26 (gpx ''trkpt'') [(''lat'', ''1.3''), (''lon'', ''2.3'')]
     [leaf 28 (gpx ''time'') ''yesterday'']"

definition trkpt_a4 :: elem where
  "trkpt_a4 = node 30 (gpx ''trkpt'') [(''lat'', ''1.4''), (''lon'', ''2.4'')]
     [leaf 32 (gpx ''ele'') ''12.5'']"

definition trkpt_a5 :: elem where
  "trkpt_a5 = node 34 (gpx ''trkpt'') [(''lat'', ''1.5''), (''lon'', ''2.5'')]
     [node 36 (gpx ''time'') [] []]"

definition wpt_a :: elem where
  "wpt_a = node 6 (gpx ''wpt'') [(''lat'', ''1.0''), (''lon'', ''2.0'')]
     [leaf 8 (gpx ''time'') ''2024-01-01T10:00:00Z'']"

definition trkpt_b1 :: elem where
  "trkpt_b1 = node 62 (gpx ''trkpt'') [(''lat'', ''3.1''), (''lon'', ''4.1'')]
     [leaf 64 (gpx ''time'') ''2024-01-01T12:00:00+02:00'']"

definition doc_a :: elem where
  "doc_a = node 0 (gpx ''gpx'') [(''version'', ''1.1'')]
     [node 2 (gpx ''metadata'') [] [leaf 4 (gpx ''name'') ''A''],
      wpt_a,
      node 10 (gpx ''trk'') []
        [node 12 (gpx ''trkseg'') [] [trkpt_a1, trkpt_a2, trkpt_a3, trkpt_a4, trkpt_a5]]]"

definition doc_b :: elem where
  "doc_b = node 50 (gpx ''gpx'') [(''version'', ''1.1'')]
     [node 52 (gpx ''metadata'') []
        [leaf 54 (gpx ''name'') ''B'', leaf 56 (gpx ''desc'') ''X''],
      node 58 (gpx ''trk'') [] [node 60 (gpx ''trkseg'') [] [trkpt_b1]]]"

definition doc_c :: elem where
  "doc_c = node 70 (gpx ''gpx'') [(''version'', ''1.1'')]
     [node 72 (gpx ''trk'') []
        [node 74 (gpx ''trkseg'') []
           [node 76 (gpx ''trkpt'') [(''lat'', ''5.0''), (''lon'', ''6.0'')]
              [leaf 78 (gpx ''ele'') ''3.0'']]]]"

definition trkpt_n1 :: elem where
  "trkpt_n1 = node 86 (gpx ''trkpt'') [(''lat'', ''7.0''), (''lon'', ''8.0'')]
     [leaf 88 (gpx ''time'') ''2024-01-01T10:00:00'']"

definition doc_n :: elem where
  "doc_n = node 80 (gpx ''gpx'') [(''version'', ''1.1'')]
     [node 82 (gpx ''trk'') [] [node 84 (gpx ''trkseg'') [] [trkpt_n1]]]"

definition sample_fs :: "string \<Rightarrow> content" where
  "sample_fs p =
     (if p = ''a.gpx'' then Document doc_a
      else if p = ''b.gpx'' then Document doc_b
      else if p = ''c.gpx'' then Document doc_c
      else if p = ''n.gpx'' then Document doc_n
      else if p = ''bad.gpx'' then NotWellFormed ''mismatched tag: line 3, column 2''
      else Missing)"


definition writable :: "string \<Rightarrow> exn option" where
  "writable p = None"

definition ts_1000_naive :: datetime where "ts_1000_naive = Datetime 63839786400000000 None"
definition ts_0900 :: datetime where "ts_0900 = Datetime 63839782800000000 (Some 0)"
definition ts_1000 :: datetime where "ts_1000 = Datetime 63839786400000000 (Some 0)"
definition ts_1200_plus2 :: datetime where
  "ts_1200_plus2 = Datetime 63839793600000000 (Some 7200000000)"

definition sample_parsed :: state where
  "sample_parsed =
     \<lparr>track_points =
        [(ts_1000, trkpt_a1, ''a.gpx''), (ts_0900, trkpt_a2, ''a.gpx''),
         (ts_1000, wpt_a, ''a.gpx''), (ts_1200_plus2, trkpt_b1, ''b.gpx'')],
      metadata = [(''name'', Some ''A'')],
      stdout = [''Processing: a.gpx'', ''Processing: b.gpx''],
      stderr = [''Warning: Could not parse timestamp '' @ quoted ''yesterday'' @ '' from a.gpx''],
      written = [], next_oid = 100\<rparr>"

definition sample_sorted :: state where
  "sample_sorted =
     sample_parsed\<lparr>track_points :=
        [(ts_0900, trkpt_a2, ''a.gpx''), (ts_1000, trkpt_a1, ''a.gpx''),
         (ts_1000, wpt_a, ''a.gpx''), (ts_1200_plus2, trkpt_b1, ''b.gpx'')]\<rparr>"

definition sample_a_extracted :: state where
  "sample_a_extracted =
     (initial 100)\<lparr>track_points :=
        [(ts_1000, trkpt_a1, ''a.gpx''), (ts_0900, trkpt_a2, ''a.gpx''),
         (ts_1000, wpt_a, ''a.gpx'')],
       stderr := [''Warning: Could not parse timestamp '' @ quoted ''yesterday'' @ '' from a.gpx'']\<rparr>"

definition sample_a_sorted :: state where
  "sample_a_sorted =
     sample_a_extracted\<lparr>track_points :=
        [(ts_0900, trkpt_a2, ''a.gpx''), (ts_1000, trkpt_a1, ''a.gpx''),
         (ts_1000, wpt_a, ''a.gpx'')]\<rparr>"

text \<open>
  Reading a written document back by hand: the text of the child \<open>k\<close> of its
  \<^verbatim>\<open>metadata\<close> element; the elements of the skeleton carry unqualified tags.
\<close>

definition written_field :: "string \<Rightarrow> elem \<Rightarrow> string option option" where
  "written_field k root =
     (case find_child ''metadata'' root of
        None \<Rightarrow> None
      | Some m \<Rightarrow> map_option elem_text (find_child k m))"

subsection \<open>Content and identity of a tree\<close>

text \<open>
  The content of an element without the identities: tag, attribute items, text, tail and
  the contents of the children, recursively; and the identities of all objects of a tree,
  elements and dictionaries. Two elements are structurally equivalent when their contents
  are equal, and share structure when they have an identity in common.
\<close>

datatype shape =
  Shape string "(string \<times> string) list" "string option" "string option" "shape list"

fun shape_of :: "elem \<Rightarrow> shape" where
  "shape_of (Element i t a x l cs) = Shape t (items a) x l (map shape_of cs)"

fun oids :: "elem \<Rightarrow> nat list" where
  "oids (Element i t a x l cs) = i # dict_oid a # concat (map oids cs)"

text \<open>
  The point elements of a written document: the children of the \<^verbatim>\<open>trkseg\<close> element of its
  \<^verbatim>\<open>trk\<close> element.
\<close>

definition written_points :: "elem \<Rightarrow> elem list" where
  "written_points root =
     (case find_child ''trk'' root of
        None \<Rightarrow> []
      | Some trk \<Rightarrow>
          (case find_child ''trkseg'' trk of None \<Rightarrow> [] | Some seg \<Rightarrow> children seg))"


text \<open>
  The metadata a document yields: the name and the description of its metadata block,
  each only if the element is there, with the text of the element as value.
\<close>

definition document_metadata :: "elem \<Rightarrow> (string \<times> string option) list" where
  "document_metadata root =
     (case find_child (gpx ''metadata'') root of
        None \<Rightarrow> []
      | Some md \<Rightarrow>
          (case find_child (gpx ''name'') md of
             None \<Rightarrow> []
           | Some name \<Rightarrow> [(''name'', elem_text name)]) @
          (case find_child (gpx ''desc'') md of
             None \<Rightarrow> []
           | Some desc \<Rightarrow> [(''desc'', elem_text desc)]))"

section \<open>The written file\<close>

text \<open>
  \<^verbatim>\<open>tree.write\<close> serializes the tree with the writer of \<^verbatim>\<open>xml.etree.ElementTree\<close>. The
  part of the writer that decides the start tag of the root is modelled here.

  The prefix registry of the library as it stands when the class body has run: the
  prefixes the library knows from the start, and the empty prefix that line 19 registers
  for the GPX namespace (\<^verbatim>\<open>ET.register_namespace("", GPX_NAMESPACE)\<close>).
\<close>

definition namespace_map :: "(string \<times> string) list" where
  "namespace_map =
     [(''http://www.w3.org/XML/1998/namespace'', ''xml''),
      (''http://www.w3.org/1999/xhtml'', ''html''),
      (''http://www.w3.org/1999/02/22-rdf-syntax-ns#'', ''rdf''),
      (''http://schemas.xmlsoap.org/wsdl/'', ''wsdl''),
      (''http://www.w3.org/2001/XMLSchema'', ''xs''),
      (''http://www.w3.org/2001/XMLSchema-instance'', ''xsi''),
      (''http://purl.org/dc/elements/1.1/'', ''dc''),
      (GPX_NAMESPACE, '''')]"

text \<open>
  \<^verbatim>\<open>s.rsplit("}", 1)\<close> when \<^verbatim>\<open>s\<close> holds a closing brace: what is before the last one and
  what is after it. A tag or key \<^verbatim>\<open>{uri}local\<close> is a qualified name; any other is written
  as it is. (A name that opens a brace and never closes it makes the writer raise; the
  parser yields no such name and the program builds none, and it is read as unqualified
  here.)
\<close>

fun rsplit_brace :: "string \<Rightarrow> (string \<times> string) option" where
  "rsplit_brace [] = None"
| "rsplit_brace (c # cs) =
     (case rsplit_brace cs of
        Some (uri, local) \<Rightarrow> Some (c # uri, local)
      | None \<Rightarrow> if c = CHR ''}'' then Some ([], cs) else None)"

definition split_qname :: "string \<Rightarrow> (string \<times> string) option" where
  "split_qname qname =
     (case qname of
        [] \<Rightarrow> None
      | c # rest \<Rightarrow> if c = CHR ''{'' then rsplit_brace rest else None)"

text \<open>
  \<^verbatim>\<open>add_qname\<close> of \<^verbatim>\<open>_namespaces\<close>, as far as the table \<^verbatim>\<open>namespaces\<close> from URI to prefix
  goes, in insertion order: a URI not yet in the table gets its registered prefix, or
  \<^verbatim>\<open>ns<k>\<close> with \<open>k\<close> the size of the table, and is entered unless the prefix is \<^verbatim>\<open>xml\<close>.
\<close>

definition add_qname :: "string \<Rightarrow> (string \<times> string) list \<Rightarrow> (string \<times> string) list" where
  "add_qname qname namespaces =
     (case split_qname qname of
        None \<Rightarrow> namespaces
      | Some (uri, local) \<Rightarrow>
          (case map_of namespaces uri of
             Some prefix \<Rightarrow> namespaces
           | None \<Rightarrow>
               (let prefix = (case map_of namespace_map uri of
                                Some p \<Rightarrow> p
                              | None \<Rightarrow> ''ns'' @ str_nat (length namespaces))
                in if prefix = ''xml'' then namespaces else namespaces @ [(uri, prefix)])))"

text \<open>
  The names \<^verbatim>\<open>_namespaces\<close> visits: for every element of \<^verbatim>\<open>root.iter()\<close> its tag, then the
  keys of its attributes; and the table it returns.
\<close>

definition qnames_of :: "elem \<Rightarrow> string list" where
  "qnames_of root = concat (map (\<lambda>e. tag e # map fst (items (attrib e))) (iter root))"

definition namespaces_of :: "elem \<Rightarrow> (string \<times> string) list" where
  "namespaces_of root = fold add_qname (qnames_of root) []"

text \<open>
  The text written for a name of the tree: \<^verbatim>\<open>prefix:local\<close>, or \<^verbatim>\<open>local\<close> alone under the
  empty prefix; a URI that is not in the table is the one with the prefix \<^verbatim>\<open>xml\<close>.
\<close>

definition qname_text :: "(string \<times> string) list \<Rightarrow> string \<Rightarrow> string" where
  "qname_text namespaces qname =
     (case split_qname qname of
        None \<Rightarrow> qname
      | Some (uri, local) \<Rightarrow>
          (let prefix = (case map_of namespaces uri of Some p \<Rightarrow> p | None \<Rightarrow> ''xml'')
           in if prefix = '''' then local else prefix @ '':'' @ local))"

text \<open>
  The attribute names in the start tag of the root, in the order written
  (\<^verbatim>\<open>_serialize_xml\<close>): one namespace declaration for every entry of the table, sorted on
  the prefix, \<^verbatim>\<open>xmlns\<close> for the empty prefix and \<^verbatim>\<open>xmlns:prefix\<close> otherwise; then the
  attributes of the element, in the order of its dictionary.
\<close>

definition namespace_declarations :: "elem \<Rightarrow> string list" where
  "namespace_declarations root =
     map (\<lambda>(uri, prefix). if prefix = '''' then ''xmlns'' else ''xmlns:'' @ prefix)
       (sort_key snd (namespaces_of root))"

definition start_tag_names :: "elem \<Rightarrow> string list" where
  "start_tag_names root =
     namespace_declarations root @
     map (\<lambda>(k, v). qname_text (namespaces_of root) k) (items (attrib root))"

text \<open>
  What \<^verbatim>\<open>ET.parse\<close> finds at a path to which the tree \<open>root\<close> has been written. The parser
  refuses a start tag in which an attribute name occurs twice, with the message
  \<^verbatim>\<open>duplicate attribute\<close> and the position; the start tag of the root is the first place
  where anything can be refused. For a root without such a name nothing is fixed here:
  \<open>otherwise\<close> stands for what the parser then finds.
\<close>

definition read_back :: "(elem \<Rightarrow> content) \<Rightarrow> string \<Rightarrow> elem \<Rightarrow> content" where
  "read_back otherwise position root =
     (if distinct (start_tag_names root) then otherwise root
      else NotWellFormed (''duplicate attribute: '' @ position))"

text \<open>
  The document that the run over \<^verbatim>\<open>a.gpx\<close> and \<^verbatim>\<open>b.gpx\<close> writes, started with the next
  identity at 100.
\<close>

definition sample_output :: "string \<Rightarrow> elem" where
  "sample_output now =
     node 100 ''gpx''
       [(''version'', ''1.1''), (''creator'', ''GPX Merger Script''), (''xmlns'', GPX_NAMESPACE)]
       [node 102 ''metadata'' []
          [leaf 104 ''name'' ''A'',
           leaf 106 ''desc'' ''Merged from multiple GPX files'',
           leaf 108 ''time'' (now @ ''Z'')],
        node 110 ''trk'' []
          [leaf 112 ''name'' ''Merged Track'',
           node 114 ''trkseg'' []
             [node 116 (gpx ''trkpt'') [(''lat'', ''1.2''), (''lon'', ''2.2'')]
                [leaf 118 (gpx ''time'') ''2024-01-01T09:00:00Z''],
              node 120 (gpx ''trkpt'') [(''lat'', ''1.1''), (''lon'', ''2.1'')]
                [leaf 122 (gpx ''time'') ''2024-01-01T10:00:00Z'',
                 node 124 (gpx ''extensions'') []
                   [leaf 126 ''{http://www.garmin.com/xmlschemas/TrackPointExtension/v1}hr''
                      ''72'']],
              node 128 (gpx ''wpt'') [(''lat'', ''1.0''), (''lon'', ''2.0'')]
                [leaf 130 (gpx ''time'') ''2024-01-01T10:00:00Z''],
              node 132 (gpx ''trkpt'') [(''lat'', ''3.1''), (''lon'', ''4.1'')]
                [leaf 134 (gpx ''time'') ''2024-01-01T12:00:00+02:00'']]]]"

section \<open>Sorting: proofs\<close>

lemma dt_lt_same_kind:
  assumes "aware a = aware b"
  shows "dt_lt a b = Inr (instant a < instant b)"
proof (cases a)
  case A: (Datetime w1 o1)
  show ?thesis
  proof (cases b)
    case B: (Datetime w2 o2)
    with A assms show ?thesis
      by (cases o1; cases o2) (simp_all add: aware_def)
  qed
qed

lemma dt_lt_mixed:
  assumes "aware a \<noteq> aware b"
  shows "dt_lt a b = Inl TypeError"
proof (cases a)
  case A: (Datetime w1 o1)
  show ?thesis
  proof (cases b)
    case B: (Datetime w2 o2)
    with A assms show ?thesis
      by (cases o1; cases o2) (simp_all add: aware_def)
  qed
qed

lemma same_kind_Nil: "same_kind []"
  by (simp add: same_kind_def)

lemma same_kind_Cons:
  "same_kind (p # ps) \<longleftrightarrow> same_kind ps \<and> (\<forall>y \<in> set ps. aware (fst y) = aware (fst p))"
  unfolding same_kind_def list_all_iff by (cases "aware (fst p)") auto

lemma same_kind_tl: "same_kind (p # ps) \<Longrightarrow> same_kind ps"
  using same_kind_Cons by blast

lemma same_kind_hd: "same_kind (p # ps) \<Longrightarrow> \<forall>y \<in> set ps. aware (fst y) = aware (fst p)"
  using same_kind_Cons by blast

lemma same_kind_ConsI:
  "same_kind ps \<Longrightarrow> \<forall>y \<in> set ps. aware (fst y) = aware (fst p) \<Longrightarrow> same_kind (p # ps)"
  using same_kind_Cons by blast

lemma same_kind_set: "set ps = set qs \<Longrightarrow> same_kind ps = same_kind qs"
  unfolding same_kind_def list_all_iff by simp

lemma insert_by_key_insort:
  assumes "\<forall>y \<in> set ys. aware (fst y) = aware (fst x)"
  shows "insert_by_key x ys = Inr (insort_key key_of x ys)"
  using assms
proof (induction ys)
  case Nil
  then show ?case by simp
next
  case (Cons y ys)
  have lt: "dt_lt (fst y) (fst x) = Inr (key_of y < key_of x)"
    using Cons.prems by (simp add: dt_lt_same_kind key_of_def)
  show ?case
  proof (cases "key_of y < key_of x")
    case True
    with lt Cons show ?thesis by simp
  next
    case False
    with lt show ?thesis by (simp add: not_less)
  qed
qed

lemma list_sort_same_kind:
  "same_kind ps \<Longrightarrow> list_sort ps = Inr (sort_key key_of ps)"
proof (induction ps)
  case Nil
  then show ?case by simp
next
  case (Cons p ps)
  from Cons.prems have sk: "same_kind ps"
    by (rule same_kind_tl)
  from Cons.prems have al: "\<forall>y \<in> set ps. aware (fst y) = aware (fst p)"
    by (rule same_kind_hd)
  from al have "\<forall>y \<in> set (sort_key key_of ps). aware (fst y) = aware (fst p)"
    by simp
  then have "insert_by_key p (sort_key key_of ps) = Inr (insort_key key_of p (sort_key key_of ps))"
    by (rule insert_by_key_insort)
  with Cons.IH [OF sk] show ?case by simp
qed

lemma insert_by_key_set:
  "insert_by_key x ys = Inr zs \<Longrightarrow> set zs = insert x (set ys)"
proof (induction ys arbitrary: zs)
  case Nil
  then show ?case by auto
next
  case (Cons y ys)
  show ?case
  proof (cases "dt_lt (fst y) (fst x)")
    case (Inl e)
    with Cons.prems show ?thesis by simp
  next
    case (Inr b)
    show ?thesis
    proof (cases b)
      case True
      with Inr Cons.prems obtain zs' where z: "insert_by_key x ys = Inr zs'" "zs = y # zs'"
        by (auto split: sum.splits)
      with Cons.IH [OF z(1)] show ?thesis by auto
    next
      case False
      with Inr Cons.prems show ?thesis by auto
    qed
  qed
qed

lemma list_sort_set:
  "list_sort ps = Inr qs \<Longrightarrow> set qs = set ps"
proof (induction ps arbitrary: qs)
  case Nil
  then show ?case by auto
next
  case (Cons p ps)
  from Cons.prems obtain ys where ys: "list_sort ps = Inr ys" and ins: "insert_by_key p ys = Inr qs"
    by (cases "list_sort ps") auto
  from Cons.IH [OF ys] insert_by_key_set [OF ins] show ?case by simp
qed

lemma insert_by_key_kind:
  assumes "insert_by_key x ys = Inr zs" "y \<in> set ys" "same_kind ys"
  shows "aware (fst y) = aware (fst x)"
proof (cases ys)
  case Nil
  with assms show ?thesis by simp
next
  case (Cons a ys')
  have ax: "aware (fst a) = aware (fst x)"
  proof (rule ccontr)
    assume "aware (fst a) \<noteq> aware (fst x)"
    then have "dt_lt (fst a) (fst x) = Inl TypeError" by (rule dt_lt_mixed)
    with assms(1) Cons show False by simp
  qed
  from assms(3) Cons have "\<forall>y \<in> set ys'. aware (fst y) = aware (fst a)"
    using same_kind_hd by blast
  with assms(2) Cons have "aware (fst y) = aware (fst a)"
    by auto
  with ax show ?thesis by simp
qed

lemma list_sort_Inr_same_kind:
  "list_sort ps = Inr qs \<Longrightarrow> same_kind ps"
proof (induction ps arbitrary: qs)
  case Nil
  then show ?case by (simp add: same_kind_Nil)
next
  case (Cons p ps)
  from Cons.prems obtain ys where ys: "list_sort ps = Inr ys" and ins: "insert_by_key p ys = Inr qs"
    by (cases "list_sort ps") auto
  have sk: "same_kind ps" using Cons.IH [OF ys] .
  have sys: "set ys = set ps" using list_sort_set [OF ys] .
  have sky: "same_kind ys" using sk same_kind_set [OF sys] by simp
  have "\<forall>y \<in> set ps. aware (fst y) = aware (fst p)"
    using insert_by_key_kind [OF ins _ sky] sys by blast
  with sk show ?case
    by (rule same_kind_ConsI)
qed

lemma dt_lt_exn: "dt_lt a b = Inl e \<Longrightarrow> e = TypeError"
  by (cases a; cases b) (auto split: if_splits option.splits)

lemma insert_by_key_exn: "insert_by_key x ys = Inl e \<Longrightarrow> e = TypeError"
proof (induction ys)
  case Nil
  then show ?case by simp
next
  case (Cons y ys)
  show ?case
  proof (cases "dt_lt (fst y) (fst x)")
    case (Inl e')
    with Cons.prems dt_lt_exn [OF Inl] show ?thesis by simp
  next
    case (Inr b)
    with Cons show ?thesis by (cases b) (auto split: sum.splits)
  qed
qed

lemma list_sort_exn: "list_sort ps = Inl e \<Longrightarrow> e = TypeError"
proof (induction ps)
  case Nil
  then show ?case by simp
next
  case (Cons p ps)
  show ?case
  proof (cases "list_sort ps")
    case (Inl e')
    with Cons show ?thesis by simp
  next
    case (Inr ys)
    with Cons.prems insert_by_key_exn show ?thesis by simp
  qed
qed

lemma list_sort_char:
  "list_sort ps = (if same_kind ps then Inr (sort_key key_of ps) else Inl TypeError)"
proof (cases "same_kind ps")
  case True
  then show ?thesis by (simp add: list_sort_same_kind)
next
  case False
  have "list_sort ps = Inl TypeError"
  proof (cases "list_sort ps")
    case (Inl e)
    with list_sort_exn show ?thesis by blast
  next
    case (Inr qs)
    with False list_sort_Inr_same_kind show ?thesis by blast
  qed
  with False show ?thesis by simp
qed

section \<open>Extraction: proofs\<close>

lemma extract_point_char:
  "extract_point fi f pt st =
     st\<lparr>track_points := track_points st @ (case point_record fi f pt of None \<Rightarrow> [] | Some r \<Rightarrow> [r]),
        stderr := stderr st @ (case point_warning fi f pt of None \<Rightarrow> [] | Some w \<Rightarrow> [w])\<rparr>"
  by (simp add: extract_point_def point_record_def point_warning_def timestamp_text_def
      split: option.splits)

lemma fold_extract_point:
  "fold (extract_point fi f) pts st =
     st\<lparr>track_points := track_points st @ List.map_filter (point_record fi f) pts,
        stderr := stderr st @ List.map_filter (point_warning fi f) pts\<rparr>"
proof (induction pts arbitrary: st)
  case Nil
  then show ?case by (simp add: map_filter_simps)
next
  case (Cons pt pts)
  have "fold (extract_point fi f) (pt # pts) st = fold (extract_point fi f) pts (extract_point fi f pt st)"
    by simp
  also have "\<dots> = (extract_point fi f pt st)\<lparr>track_points := track_points (extract_point fi f pt st) @ List.map_filter (point_record fi f) pts,
        stderr := stderr (extract_point fi f pt st) @ List.map_filter (point_warning fi f) pts\<rparr>"
    by (rule Cons.IH)
  also have "\<dots> = st\<lparr>track_points := track_points st @ List.map_filter (point_record fi f) (pt # pts),
        stderr := stderr st @ List.map_filter (point_warning fi f) (pt # pts)\<rparr>"
    unfolding extract_point_char [of fi f pt st]
    by (simp add: map_filter_simps split: option.splits)
  finally show ?case .
qed

lemma map_filter_append:
  "List.map_filter g (xs @ ys) = List.map_filter g xs @ List.map_filter g ys"
  by (simp add: List.map_filter_def)

lemma extract_track_points_char:
  "extract_track_points fi root f st =
     st\<lparr>track_points := track_points st @ List.map_filter (point_record fi f) (candidates root),
        stderr := stderr st @ List.map_filter (point_warning fi f) (candidates root)\<rparr>"
  by (simp add: extract_track_points_def fold_extract_point candidates_def map_filter_append)


lemma extract_metadata_track_points [simp]:
  "track_points (extract_metadata root st) = track_points st"
  by (simp add: extract_metadata_def Let_def split: option.splits)

lemma parse_gpx_file_points:
  assumes "parse_gpx_file fi fs f st = Inr st'"
  shows "track_points st' = track_points st @ document_points fi (fs f) f"
  using assms
  by (auto simp: parse_gpx_file_def document_points_def extract_track_points_char
      split: content.splits)

lemma parse_files_points:
  "parse_files fi fs files st = (Returned, st') \<Longrightarrow>
   track_points st' = track_points st @ concat (map (\<lambda>f. document_points fi (fs f) f) files)"
proof (induction files arbitrary: st)
  case Nil
  then show ?case by simp
next
  case (Cons f files)
  let ?st1 = "st\<lparr>stdout := stdout st @ [''Processing: '' @ f]\<rparr>"
  from Cons.prems obtain st2 where p: "parse_gpx_file fi fs f ?st1 = Inr st2"
    and r: "parse_files fi fs files st2 = (Returned, st')"
    by (cases "parse_gpx_file fi fs f ?st1") (auto simp: Let_def)
  from parse_gpx_file_points [OF p] Cons.IH [OF r] show ?case by simp
qed


lemma sort_by_timestamp_char:
  "sort_by_timestamp st =
     (if same_kind (track_points st)
      then Inr (st\<lparr>track_points := sort_key key_of (track_points st)\<rparr>)
      else Inl TypeError)"
  by (simp add: sort_by_timestamp_def list_sort_char)

section \<open>The sample run\<close>

lemmas iso_defs = number2_def digit_def make_datetime_def days_in_month_def ymd2ord_def
  days_before_month_def is_leap_def replace_Z_def

lemmas sample_defs = doc_a_def doc_b_def doc_c_def doc_n_def trkpt_n1_def ts_1000_naive_def
  trkpt_a1_def trkpt_a2_def trkpt_a3_def trkpt_a4_def
  trkpt_a5_def
  wpt_a_def trkpt_b1_def node_def leaf_def ts_0900_def ts_1000_def ts_1200_plus2_def

lemma candidates_doc_a:
  "candidates doc_a = [trkpt_a1, trkpt_a2, trkpt_a3, trkpt_a4, trkpt_a5, wpt_a]"
  by (simp add: candidates_def findall_descendants_def sample_defs gpx_def)

lemma candidates_doc_b: "candidates doc_b = [trkpt_b1]"
  by (simp add: candidates_def findall_descendants_def sample_defs gpx_def)

lemma point_record_samples:
  "point_record iso_datetime f trkpt_a1 = Some (ts_1000, trkpt_a1, f)"
  "point_record iso_datetime f trkpt_a2 = Some (ts_0900, trkpt_a2, f)"
  "point_record iso_datetime f trkpt_a3 = None"
  "point_record iso_datetime f trkpt_a4 = None"
  "point_record iso_datetime f trkpt_a5 = None"
  "point_record iso_datetime f wpt_a = Some (ts_1000, wpt_a, f)"
  "point_record iso_datetime f trkpt_b1 = Some (ts_1200_plus2, trkpt_b1, f)"
  by (simp_all add: point_record_def timestamp_text_def find_child_def sample_defs gpx_def
      iso_defs)

lemma point_warning_samples:
  "point_warning iso_datetime f trkpt_a1 = None"
  "point_warning iso_datetime f trkpt_a2 = None"
  "point_warning iso_datetime f trkpt_a3 =
     Some (''Warning: Could not parse timestamp '' @ quoted ''yesterday'' @ '' from '' @ f)"
  "point_warning iso_datetime f trkpt_a4 = None"
  "point_warning iso_datetime f trkpt_a5 = None"
  "point_warning iso_datetime f wpt_a = None"
  "point_warning iso_datetime f trkpt_b1 = None"
  by (simp_all add: point_warning_def timestamp_text_def find_child_def sample_defs gpx_def
      iso_defs)

lemma metadata_doc_a:
  "extract_metadata doc_a st = st\<lparr>metadata := AList.update ''name'' (Some ''A'') (metadata st)\<rparr>"
  by (simp add: extract_metadata_def find_child_def sample_defs gpx_def)

lemma sample_parse:
  "parse_files iso_datetime sample_fs [''a.gpx'', ''b.gpx''] (initial 100) =
     (Returned, sample_parsed)"
  by (simp add: parse_gpx_file_def sample_fs_def extract_track_points_char candidates_doc_a
      candidates_doc_b point_record_samples point_warning_samples metadata_doc_a
      map_filter_simps initial_def sample_parsed_def)


lemma sample_sort: "sort_by_timestamp sample_parsed = Inr sample_sorted"
  by (simp add: sort_by_timestamp_def sample_parsed_def sample_sorted_def
      ts_0900_def ts_1000_def ts_1200_plus2_def)

lemma extract_track_points_points:
  "track_points (extract_track_points fi root f st) =
     track_points st @
     List.map_filter (point_record fi f) (findall_descendants (gpx ''trkpt'') root) @
     List.map_filter (point_record fi f) (findall_descendants (gpx ''wpt'') root)"
  by (simp add: extract_track_points_char candidates_def map_filter_append)

lemma sample_a_extract:
  "extract_track_points iso_datetime doc_a ''a.gpx'' (initial 100) = sample_a_extracted"
  by (simp add: extract_track_points_char candidates_doc_a point_record_samples
      point_warning_samples map_filter_simps initial_def sample_a_extracted_def)

lemma sample_a_sort: "sort_by_timestamp sample_a_extracted = Inr sample_a_sorted"
  by (simp add: sort_by_timestamp_def sample_a_extracted_def sample_a_sorted_def initial_def
      ts_0900_def ts_1000_def)

lemma findall_doc_a:
  "findall_descendants (gpx ''trkpt'') doc_a = [trkpt_a1, trkpt_a2, trkpt_a3, trkpt_a4, trkpt_a5]"
  "findall_descendants (gpx ''wpt'') doc_a = [wpt_a]"
  by (simp_all add: findall_descendants_def sample_defs gpx_def)

lemma iter_doc_a_order:
  "filter (\<lambda>e. e = wpt_a \<or> e = trkpt_a1) (concat (map iter (children doc_a))) = [wpt_a, trkpt_a1]"
  by (simp add: sample_defs gpx_def)

lemma extract_track_points_metadata [simp]:
  "metadata (extract_track_points fi root f st) = metadata st"
  by (simp add: extract_track_points_char)

lemma parse_gpx_file_metadata_kept:
  assumes "metadata st \<noteq> []" "parse_gpx_file fi fs f st = Inr st'"
  shows "metadata st' = metadata st"
  using assms by (auto simp: parse_gpx_file_def split: content.splits)

lemma parse_files_metadata_kept:
  "metadata st \<noteq> [] \<Longrightarrow> parse_files fi fs files st = (out, st') \<Longrightarrow> metadata st' = metadata st"
proof (induction files arbitrary: st)
  case Nil
  then show ?case by simp
next
  case (Cons f files)
  let ?st1 = "st\<lparr>stdout := stdout st @ [''Processing: '' @ f]\<rparr>"
  have m1: "metadata ?st1 \<noteq> []" using Cons.prems(1) by simp
  show ?case
  proof (cases "parse_gpx_file fi fs f ?st1")
    case (Inl e)
    with Cons.prems(2) show ?thesis by (auto simp: Let_def)
  next
    case (Inr st2)
    have m2: "metadata st2 = metadata st"
      using parse_gpx_file_metadata_kept [OF m1 Inr] by simp
    from Inr Cons.prems(2) have "parse_files fi fs files st2 = (out, st')"
      by (simp add: Let_def)
    with Cons.IH [of st2] m2 Cons.prems(1) show ?thesis by simp
  qed
qed

lemma sort_by_timestamp_metadata:
  "sort_by_timestamp st = Inr st' \<Longrightarrow> metadata st' = metadata st"
  by (auto simp: sort_by_timestamp_char split: if_splits)

section \<open>Cloning: proofs\<close>

lemma clone_shape:
  "shape_of (fst (clone_element e n)) = shape_of e"
  "map shape_of (fst (clone_children es n)) = map shape_of es"
proof (induction e n and es n rule: clone_element_clone_children.induct)
  case (1 i t a x l cs n)
  obtain cs' n' where c: "clone_children cs (n + 2) = (cs', n')"
    by (cases "clone_children cs (n + 2)") blast
  with 1 show ?case by simp
next
  case (2 n)
  then show ?case by simp
next
  case (3 c cs n)
  obtain c' n1 where a: "clone_element c n = (c', n1)"
    by (cases "clone_element c n") blast
  obtain cs' n2 where b: "clone_children cs n1 = (cs', n2)"
    by (cases "clone_children cs n1") blast
  from 3(1) a have "shape_of c' = shape_of c" by simp
  moreover from 3(2) [OF a [symmetric]] b have "map shape_of cs' = map shape_of cs" by simp
  ultimately show ?case using a b by simp
qed

lemma clone_oids:
  "n \<le> snd (clone_element e n) \<and> oids (fst (clone_element e n)) = [n..<snd (clone_element e n)]"
  "n \<le> snd (clone_children es n) \<and>
     concat (map oids (fst (clone_children es n))) = [n..<snd (clone_children es n)]"
proof (induction e n and es n rule: clone_element_clone_children.induct)
  case (1 i t a x l cs n)
  obtain cs' n' where c: "clone_children cs (n + 2) = (cs', n')"
    by (cases "clone_children cs (n + 2)") blast
  with 1 have le: "n + 2 \<le> n'" and eq: "concat (map oids cs') = [n + 2..<n']"
    by simp_all
  have "[n..<n'] = n # (n + 1) # [n + 2..<n']"
    using le by (simp add: upt_conv_Cons)
  with c le eq show ?case by simp
next
  case (2 n)
  then show ?case by simp
next
  case (3 c cs n)
  obtain c' n1 where a: "clone_element c n = (c', n1)"
    by (cases "clone_element c n") blast
  obtain cs' n2 where b: "clone_children cs n1 = (cs', n2)"
    by (cases "clone_children cs n1") blast
  from 3(1) a have le1: "n \<le> n1" and eq1: "oids c' = [n..<n1]"
    by simp_all
  from 3(2) [OF a [symmetric]] b have le2: "n1 \<le> n2" and eq2: "concat (map oids cs') = [n1..<n2]"
    by simp_all
  have "[n..<n2] = [n..<n1] @ [n1..<n2]"
    using le1 le2 by (metis le_Suc_ex upt_add_eq_append)
  with a b le1 le2 eq1 eq2 show ?case by simp
qed

lemma clone_children_length:
  "length (fst (clone_children es n)) = length es"
  using clone_shape(2) [of es n] by (metis length_map)

section \<open>Writing: proofs\<close>

lemma merge_to_file_empty:
  "track_points st = [] \<Longrightarrow>
   merge_to_file open_error now output_path st =
     Inr (st\<lparr>stderr := stderr st @ [''Error: No track points found to merge.'']\<rparr>)"
  by (simp add: merge_to_file_def)

lemma merge_to_file_nonempty:
  assumes "track_points st \<noteq> []"
    and "clone_children
           (map (\<lambda>(timestamp, point_elem, source_file). point_elem) (track_points st))
           (next_oid st + 16) = (new_points, n')"
  shows "merge_to_file open_error now output_path st =
     (case open_error output_path of
        Some e \<Rightarrow> Inl e
      | None \<Rightarrow>
     Inr (st\<lparr>written := written st @
           [(output_path,
             Element (next_oid st) ''gpx''
               (Dict (next_oid st + 1)
                  [(''version'', ''1.1''), (''creator'', ''GPX Merger Script''),
                   (''xmlns'', GPX_NAMESPACE)])
               None None
               [Element (next_oid st + 2) ''metadata'' (Dict (next_oid st + 3) []) None None
                  [Element (next_oid st + 4) ''name'' (Dict (next_oid st + 5) [])
                     (metadata_get st ''name'' ''Merged GPX Track'') None [],
                   Element (next_oid st + 6) ''desc'' (Dict (next_oid st + 7) [])
                     (metadata_get st ''desc'' ''Merged from multiple GPX files'') None [],
                   Element (next_oid st + 8) ''time'' (Dict (next_oid st + 9) [])
                     (Some (now @ ''Z'')) None []],
                Element (next_oid st + 10) ''trk'' (Dict (next_oid st + 11) []) None None
                  [Element (next_oid st + 12) ''name'' (Dict (next_oid st + 13) [])
                     (Some ''Merged Track'') None [],
                   Element (next_oid st + 14) ''trkseg'' (Dict (next_oid st + 15) []) None None
                     new_points]])],
        stdout := stdout st @
           [[CHR 0xE2, CHR 0x9C, CHR 0x93] @ '' Merged GPX file created: '' @ output_path,
            ''  Total track points merged: '' @ str_nat (length (track_points st))],
        next_oid := n'\<rparr>))"
  unfolding merge_to_file_def Let_def using assms by simp

lemma merge_to_file_fails:
  assumes "track_points st \<noteq> []" "open_error output_path = Some e"
  shows "merge_to_file open_error now output_path st = Inl e"
proof -
  obtain new_points n' where c: "clone_children
           (map (\<lambda>(timestamp, point_elem, source_file). point_elem) (track_points st))
           (next_oid st + 16) = (new_points, n')"
    by (cases "clone_children
           (map (\<lambda>(timestamp, point_elem, source_file). point_elem) (track_points st))
           (next_oid st + 16)") blast
  show ?thesis
    unfolding merge_to_file_nonempty [OF assms(1) c] by (simp add: assms(2))
qed

lemma merge_to_file_writes:
  assumes "track_points st \<noteq> []" "open_error output_path = None"
  shows "\<exists>st' root. merge_to_file open_error now output_path st = Inr st'
           \<and> written st' = written st @ [(output_path, root)]
           \<and> tag root = ''gpx''
           \<and> items (attrib root) =
               [(''version'', ''1.1''), (''creator'', ''GPX Merger Script''),
                (''xmlns'', GPX_NAMESPACE)]
           \<and> written_field ''name'' root = Some (metadata_get st ''name'' ''Merged GPX Track'')
           \<and> written_field ''desc'' root =
               Some (metadata_get st ''desc'' ''Merged from multiple GPX files'')
           \<and> written_points root =
               fst (clone_children
                      (map (\<lambda>(timestamp, point_elem, source_file). point_elem) (track_points st))
                      (next_oid st + 16))
           \<and> next_oid st' =
               snd (clone_children
                      (map (\<lambda>(timestamp, point_elem, source_file). point_elem) (track_points st))
                      (next_oid st + 16))
           \<and> track_points st' = track_points st \<and> stderr st' = stderr st"
proof -
  obtain new_points n' where c: "clone_children
           (map (\<lambda>(timestamp, point_elem, source_file). point_elem) (track_points st))
           (next_oid st + 16) = (new_points, n')"
    by (cases "clone_children
           (map (\<lambda>(timestamp, point_elem, source_file). point_elem) (track_points st))
           (next_oid st + 16)") blast
  show ?thesis
    unfolding merge_to_file_nonempty [OF assms(1) c]
    by (simp add: assms(2) c written_field_def written_points_def find_child_def)
qed

lemma written_points_shape:
  "map shape_of
     (fst (clone_children
             (map (\<lambda>(timestamp, point_elem, source_file). point_elem) ps) n)) =
   map (\<lambda>(timestamp, point_elem, source_file). shape_of point_elem) ps"
  by (simp add: clone_shape(2) case_prod_unfold comp_def)

lemma extract_track_points_written [simp]:
  "written (extract_track_points fi root f st) = written st"
  by (simp add: extract_track_points_char)

lemma extract_metadata_written [simp]:
  "written (extract_metadata root st) = written st"
  by (simp add: extract_metadata_def Let_def split: option.splits)

lemma parse_gpx_file_written:
  "parse_gpx_file fi fs f st = Inr st' \<Longrightarrow> written st' = written st"
  by (auto simp: parse_gpx_file_def split: content.splits)

lemma parse_gpx_file_Document:
  "fs f = Document r \<Longrightarrow> \<exists>st'. parse_gpx_file fi fs f st = Inr st'"
  by (simp add: parse_gpx_file_def)

lemma parse_gpx_file_NotWellFormed:
  "fs f = NotWellFormed e \<Longrightarrow>
   parse_gpx_file fi fs f st = Inl (ParseError (''Invalid GPX file '' @ quoted f @ '': '' @ e))"
  by (simp add: parse_gpx_file_def)

lemma parse_files_written:
  "parse_files fi fs files st = (out, st') \<Longrightarrow> written st' = written st"
proof (induction files arbitrary: st)
  case Nil
  then show ?case by simp
next
  case (Cons f files)
  let ?st1 = "st\<lparr>stdout := stdout st @ [''Processing: '' @ f]\<rparr>"
  show ?case
  proof (cases "parse_gpx_file fi fs f ?st1")
    case (Inl e)
    with Cons.prems show ?thesis by (auto simp: Let_def)
  next
    case (Inr st2)
    with Cons.prems have "parse_files fi fs files st2 = (out, st')"
      by (simp add: Let_def)
    from Cons.IH [OF this] parse_gpx_file_written [OF Inr] show ?thesis by simp
  qed
qed

lemma parse_files_outcome:
  "fst (parse_files fi fs files st) =
     (if \<forall>f \<in> set files. \<exists>r. fs f = Document r then Returned else SystemExit 1)"
proof (induction files arbitrary: st)
  case Nil
  then show ?case by simp
next
  case (Cons f files)
  let ?st1 = "st\<lparr>stdout := stdout st @ [''Processing: '' @ f]\<rparr>"
  show ?case
  proof (cases "fs f")
    case Missing
    then show ?thesis by (simp add: parse_gpx_file_def Let_def)
  next
    case (NotWellFormed e)
    then show ?thesis by (simp add: parse_gpx_file_def Let_def)
  next
    case (Document r)
    then obtain st2 where "parse_gpx_file fi fs f ?st1 = Inr st2"
      using parse_gpx_file_Document by blast
    with Document Cons.IH [of st2] show ?thesis by (simp add: Let_def)
  qed
qed


lemma main_exit:
  assumes "input_files \<noteq> []" "parse_files fi fs input_files
      (st\<lparr>stdout := stdout st @
         (''Found '' @ str_nat (length input_files) @ '' GPX file(s) to merge:'') #
         map (\<lambda>f. ''  - '' @ f) input_files\<rparr>) = (SystemExit c, st2)"
  shows "main fi fs oe now input_files output_path st = (SystemExit c, st2)"
  unfolding main_def Let_def
  by (simp only: assms if_False prod.case outcome.case)

lemma main_returned:
  assumes "input_files \<noteq> []" "parse_files fi fs input_files
      (st\<lparr>stdout := stdout st @
         (''Found '' @ str_nat (length input_files) @ '' GPX file(s) to merge:'') #
         map (\<lambda>f. ''  - '' @ f) input_files\<rparr>) = (Returned, st2)"
  shows "main fi fs oe now input_files output_path st =
     (case sort_by_timestamp st2 of
        Inl e \<Rightarrow> (Uncaught e, st2)
      | Inr st3 \<Rightarrow>
          (case merge_to_file oe now output_path st3 of
             Inl e \<Rightarrow> (Uncaught e, st3)
           | Inr st4 \<Rightarrow> (Returned, st4)))"
  unfolding main_def Let_def
  by (simp only: assms if_False prod.case outcome.case)

lemma parse_files_Returned:
  assumes "\<forall>f \<in> set files. \<exists>r. fs f = Document r"
  shows "\<exists>st'. parse_files fi fs files st = (Returned, st')"
  using parse_files_outcome [of fi fs files st] assms
  by (cases "parse_files fi fs files st") simp

lemma replace_Z_append: "replace_Z (s @ t) = replace_Z s @ replace_Z t"
  by (simp add: replace_Z_def)

lemma sample_same_kind: "same_kind (track_points sample_parsed)"
  by (simp add: same_kind_def sample_parsed_def aware_def ts_0900_def ts_1000_def
      ts_1200_plus2_def)


lemma candidates_doc_n: "candidates doc_n = [trkpt_n1]"
  by (simp add: candidates_def findall_descendants_def sample_defs gpx_def)

lemma point_record_n1:
  "point_record iso_datetime f trkpt_n1 = Some (ts_1000_naive, trkpt_n1, f)"
  by (simp add: point_record_def timestamp_text_def find_child_def sample_defs gpx_def iso_defs)

lemma document_points_samples:
  "document_points iso_datetime (sample_fs ''a.gpx'') ''a.gpx'' =
     [(ts_1000, trkpt_a1, ''a.gpx''), (ts_0900, trkpt_a2, ''a.gpx''), (ts_1000, wpt_a, ''a.gpx'')]"
  "document_points iso_datetime (sample_fs ''b.gpx'') ''b.gpx'' =
     [(ts_1200_plus2, trkpt_b1, ''b.gpx'')]"
  "document_points iso_datetime (sample_fs ''n.gpx'') ''n.gpx'' =
     [(ts_1000_naive, trkpt_n1, ''n.gpx'')]"
  by (simp_all add: document_points_def sample_fs_def candidates_doc_a candidates_doc_b
      candidates_doc_n point_record_samples point_record_n1 map_filter_simps)

section \<open>Metadata: proofs\<close>

lemma extract_metadata_empty:
  "metadata st = [] \<Longrightarrow> metadata (extract_metadata root st) = document_metadata root"
  by (simp add: extract_metadata_def document_metadata_def Let_def split: option.splits)

lemma parse_gpx_file_metadata_first:
  assumes "metadata st = []" "fs f = Document d"
  shows "\<exists>st'. parse_gpx_file fi fs f st = Inr st' \<and> metadata st' = document_metadata d"
  using assms by (simp add: parse_gpx_file_def extract_metadata_empty)

lemma parse_files_append:
  "parse_files fi fs (pre @ rest) st =
     (case parse_files fi fs pre st of
        (Returned, st') \<Rightarrow> parse_files fi fs rest st'
      | (out, st') \<Rightarrow> (out, st'))"
proof (induction pre arbitrary: st)
  case Nil
  then show ?case by simp
next
  case (Cons g pre)
  let ?st1 = "st\<lparr>stdout := stdout st @ [''Processing: '' @ g]\<rparr>"
  show ?case
  proof (cases "parse_gpx_file fi fs g ?st1")
    case (Inl e)
    then show ?thesis by (simp add: Let_def)
  next
    case (Inr st2)
    with Cons.IH [of st2] show ?thesis by (simp add: Let_def)
  qed
qed

lemma parse_files_no_metadata:
  assumes "metadata st = []"
    and "\<forall>g \<in> set pre. \<exists>d. fs g = Document d \<and> document_metadata d = []"
  shows "\<exists>st'. parse_files fi fs pre st = (Returned, st') \<and> metadata st' = []"
  using assms
proof (induction pre arbitrary: st)
  case Nil
  then show ?case by simp
next
  case (Cons g pre)
  let ?st1 = "st\<lparr>stdout := stdout st @ [''Processing: '' @ g]\<rparr>"
  from Cons.prems(2) obtain d where d: "fs g = Document d" "document_metadata d = []"
    by auto
  have "metadata ?st1 = []" using Cons.prems(1) by simp
  from parse_gpx_file_metadata_first [where fs = fs and f = g and fi = fi, OF this d(1)] d(2)
  obtain st2 where p: "parse_gpx_file fi fs g ?st1 = Inr st2" and m: "metadata st2 = []"
    by auto
  from Cons.prems(2) have "\<forall>g \<in> set pre. \<exists>d. fs g = Document d \<and> document_metadata d = []"
    by simp
  from Cons.IH [OF m this] obtain st' where
    "parse_files fi fs pre st2 = (Returned, st')" "metadata st' = []"
    by blast
  with p show ?case by (simp add: Let_def)
qed

lemma parse_files_metadata_first:
  assumes "metadata st0 = []"
    and "\<forall>g \<in> set pre. \<exists>d. fs g = Document d \<and> document_metadata d = []"
    and "fs f1 = Document d1" "document_metadata d1 \<noteq> []"
    and "\<forall>g \<in> set rest. \<exists>d. fs g = Document d"
  shows "\<exists>st1. parse_files fi fs (pre @ f1 # rest) st0 = (Returned, st1)
           \<and> metadata st1 = document_metadata d1"
proof -
  from parse_files_no_metadata [OF assms(1,2), of fi]
  obtain sa where a: "parse_files fi fs pre st0 = (Returned, sa)" and ma: "metadata sa = []"
    by blast
  let ?sa1 = "sa\<lparr>stdout := stdout sa @ [''Processing: '' @ f1]\<rparr>"
  have "metadata ?sa1 = []" using ma by simp
  from parse_gpx_file_metadata_first [where fs = fs and f = f1 and fi = fi, OF this assms(3)]
  obtain sb where b: "parse_gpx_file fi fs f1 ?sa1 = Inr sb"
    and mb: "metadata sb = document_metadata d1"
    by blast
  from parse_files_Returned [OF assms(5), of fi sb]
  obtain st1 where c: "parse_files fi fs rest sb = (Returned, st1)"
    by blast
  from mb assms(4) have "metadata sb \<noteq> []" by simp
  from parse_files_metadata_kept [OF this c] mb
  have "metadata st1 = document_metadata d1" by simp
  moreover have "parse_files fi fs (pre @ f1 # rest) st0 = (Returned, st1)"
    using a b c by (simp add: parse_files_append Let_def)
  ultimately show ?thesis by blast
qed

section \<open>The written file: proofs\<close>

lemma namespace_map_gpx: "map_of namespace_map GPX_NAMESPACE = Some ''''"
  by (simp add: namespace_map_def GPX_NAMESPACE_def)

lemma split_qname_points:
  "split_qname (gpx ''trkpt'') = Some (GPX_NAMESPACE, ''trkpt'')"
  "split_qname (gpx ''wpt'') = Some (GPX_NAMESPACE, ''wpt'')"
  by (simp_all add: split_qname_def gpx_def GPX_NAMESPACE_def)

lemma sample_merge:
  "merge_to_file writable now ''merged.gpx'' sample_sorted =
     Inr (sample_sorted\<lparr>written := [(''merged.gpx'', sample_output now)],
            stdout := stdout sample_sorted @
              [[CHR 0xE2, CHR 0x9C, CHR 0x93] @ '' Merged GPX file created: merged.gpx'',
               ''  Total track points merged: 4''],
            next_oid := 136\<rparr>)"
proof -
  have c: "clone_children
      (map (\<lambda>(timestamp, point_elem, source_file). point_elem) (track_points sample_sorted))
      (next_oid sample_sorted + 16) = (children (hd (tl (children (hd (tl (children (sample_output now))))))), 136)"
    by (simp add: sample_sorted_def sample_parsed_def sample_defs sample_output_def)
  have n: "track_points sample_sorted \<noteq> []"
    by (simp add: sample_sorted_def)
  have s: "str_nat (Suc (Suc (Suc (Suc 0)))) = ''4''"
    by (subst str_nat.simps) simp
  show ?thesis
    unfolding merge_to_file_nonempty [OF n c]
    by (simp add: writable_def sample_sorted_def sample_parsed_def sample_output_def node_def
        leaf_def metadata_get_def s)
qed

lemma sample_namespaces:
  "namespaces_of (sample_output now) =
     [(GPX_NAMESPACE, ''''),
      (''http://www.garmin.com/xmlschemas/TrackPointExtension/v1'', ''ns1'')]"
  by (simp add: namespaces_of_def qnames_of_def sample_output_def node_def leaf_def add_qname_def
      split_qname_def gpx_def GPX_NAMESPACE_def namespace_map_def str_nat.simps [of "Suc 0"])

lemma sample_start_tag:
  "start_tag_names (sample_output now) =
     [''xmlns'', ''xmlns:ns1'', ''version'', ''creator'', ''xmlns'']"
  unfolding start_tag_names_def namespace_declarations_def sample_namespaces
  by (simp add: sample_output_def node_def qname_text_def split_qname_def)

lemma map_of_snoc:
  "map_of (ns @ [(k, v)]) k' =
     (case map_of ns k' of Some w \<Rightarrow> Some w | None \<Rightarrow> if k' = k then Some v else None)"
  by (induction ns) auto

lemma add_qname_keeps:
  "map_of ns GPX_NAMESPACE = Some '''' \<Longrightarrow> map_of (add_qname q ns) GPX_NAMESPACE = Some ''''"
  by (auto simp: add_qname_def Let_def map_of_snoc simp del: map_of_append split: option.splits)

lemma add_qname_invariant:
  assumes "map_of ns GPX_NAMESPACE = None \<or> map_of ns GPX_NAMESPACE = Some ''''"
  shows "map_of (add_qname q ns) GPX_NAMESPACE = None
         \<or> map_of (add_qname q ns) GPX_NAMESPACE = Some ''''"
proof (cases "split_qname q")
  case None
  with assms show ?thesis by (simp add: add_qname_def)
next
  case (Some a)
  obtain uri l where a: "a = (uri, l)" by (cases a) blast
  show ?thesis
  proof (cases "uri = GPX_NAMESPACE")
    case True
    with assms Some a show ?thesis
      by (auto simp: add_qname_def namespace_map_gpx Let_def map_of_snoc
          simp del: map_of_append split: option.splits)
  next
    case False
    with assms Some a show ?thesis
      by (auto simp: add_qname_def Let_def map_of_snoc simp del: map_of_append
          split: option.splits)
  qed
qed

lemma add_qname_enters:
  assumes "split_qname q = Some (GPX_NAMESPACE, l)"
    and "map_of ns GPX_NAMESPACE = None \<or> map_of ns GPX_NAMESPACE = Some ''''"
  shows "map_of (add_qname q ns) GPX_NAMESPACE = Some ''''"
  using assms
  by (auto simp: add_qname_def namespace_map_gpx Let_def map_of_snoc simp del: map_of_append)

lemma fold_add_qname_keeps:
  "map_of ns GPX_NAMESPACE = Some '''' \<Longrightarrow>
   map_of (fold add_qname qs ns) GPX_NAMESPACE = Some ''''"
  by (induction qs arbitrary: ns) (simp_all add: add_qname_keeps)

lemma fold_add_qname_enters:
  assumes "q \<in> set qs" "split_qname q = Some (GPX_NAMESPACE, l)"
    and "map_of ns GPX_NAMESPACE = None \<or> map_of ns GPX_NAMESPACE = Some ''''"
  shows "map_of (fold add_qname qs ns) GPX_NAMESPACE = Some ''''"
  using assms
proof (induction qs arbitrary: ns)
  case Nil
  then show ?case by simp
next
  case (Cons a qs)
  show ?case
  proof (cases "q = a")
    case True
    with Cons.prems have "map_of (add_qname a ns) GPX_NAMESPACE = Some ''''"
      using add_qname_enters by blast
    then show ?thesis
      by (simp add: fold_add_qname_keeps)
  next
    case False
    with Cons.prems have q: "q \<in> set qs" by simp
    from Cons.IH [OF q Cons.prems(2) add_qname_invariant [OF Cons.prems(3)]]
    show ?thesis by simp
  qed
qed

lemma iter_self: "e \<in> set (iter e)"
  by (cases e) simp

lemma namespaces_of_gpx:
  assumes "e \<in> set (iter root)" "split_qname (tag e) = Some (GPX_NAMESPACE, l)"
  shows "map_of (namespaces_of root) GPX_NAMESPACE = Some ''''"
proof -
  from assms(1) have "tag e \<in> set (qnames_of root)"
    by (auto simp: qnames_of_def)
  from fold_add_qname_enters [OF this assms(2)] show ?thesis
    by (simp add: namespaces_of_def)
qed

lemma xmlns_declared:
  assumes "map_of (namespaces_of root) GPX_NAMESPACE = Some ''''"
  shows "''xmlns'' \<in> set (namespace_declarations root)"
proof -
  from assms have "(GPX_NAMESPACE, '''') \<in> set (namespaces_of root)"
    by (rule map_of_SomeD)
  then have "(\<lambda>(uri, prefix). if prefix = '''' then ''xmlns'' else ''xmlns:'' @ prefix)
               (GPX_NAMESPACE, '''')
             \<in> (\<lambda>(uri, prefix). if prefix = '''' then ''xmlns'' else ''xmlns:'' @ prefix) `
                 set (namespaces_of root)"
    by (rule imageI)
  then show ?thesis
    by (simp add: namespace_declarations_def)
qed

lemma start_tag_duplicate:
  assumes "''xmlns'' \<in> set (namespace_declarations root)"
    and "(''xmlns'', v) \<in> set (items (attrib root))"
  shows "\<not> distinct (start_tag_names root)"
proof -
  have q: "qname_text ns ''xmlns'' = ''xmlns''" for ns
    by (simp add: qname_text_def split_qname_def)
  from assms(2)
  have "(\<lambda>(k, v). qname_text (namespaces_of root) k) (''xmlns'', v)
        \<in> (\<lambda>(k, v). qname_text (namespaces_of root) k) ` set (items (attrib root))"
    by (rule imageI)
  then have "''xmlns'' \<in> set (map (\<lambda>(k, v). qname_text (namespaces_of root) k)
                                  (items (attrib root)))"
    by (simp add: q)
  with assms(1) show ?thesis
    unfolding start_tag_names_def distinct_append by blast
qed

lemma shape_of_tag: "shape_of a = shape_of b \<Longrightarrow> tag a = tag b"
  by (cases a; cases b) simp

lemma merge_root_start_tag:
  assumes "track_points st \<noteq> []" "open_error output_path = None"
    and "\<forall>p \<in> set (track_points st).
           tag (fst (snd p)) = gpx ''trkpt'' \<or> tag (fst (snd p)) = gpx ''wpt''"
  shows "\<exists>st' root. merge_to_file open_error now output_path st = Inr st'
           \<and> written st' = written st @ [(output_path, root)]
           \<and> tag root = ''gpx''
           \<and> (''xmlns'', GPX_NAMESPACE) \<in> set (items (attrib root))
           \<and> ''xmlns'' \<in> set (namespace_declarations root)
           \<and> \<not> distinct (start_tag_names root)"
proof -
  let ?ps = "map (\<lambda>(timestamp, point_elem, source_file). point_elem) (track_points st)"
  obtain new_points n' where c: "clone_children ?ps (next_oid st + 16) = (new_points, n')"
    by (cases "clone_children ?ps (next_oid st + 16)") blast
  let ?root = "Element (next_oid st) ''gpx''
               (Dict (next_oid st + 1)
                  [(''version'', ''1.1''), (''creator'', ''GPX Merger Script''),
                   (''xmlns'', GPX_NAMESPACE)])
               None None
               [Element (next_oid st + 2) ''metadata'' (Dict (next_oid st + 3) []) None None
                  [Element (next_oid st + 4) ''name'' (Dict (next_oid st + 5) [])
                     (metadata_get st ''name'' ''Merged GPX Track'') None [],
                   Element (next_oid st + 6) ''desc'' (Dict (next_oid st + 7) [])
                     (metadata_get st ''desc'' ''Merged from multiple GPX files'') None [],
                   Element (next_oid st + 8) ''time'' (Dict (next_oid st + 9) [])
                     (Some (now @ ''Z'')) None []],
                Element (next_oid st + 10) ''trk'' (Dict (next_oid st + 11) []) None None
                  [Element (next_oid st + 12) ''name'' (Dict (next_oid st + 13) [])
                     (Some ''Merged Track'') None [],
                   Element (next_oid st + 14) ''trkseg'' (Dict (next_oid st + 15) []) None None
                     new_points]]"
  from assms(1) obtain p rest where ps: "track_points st = p # rest"
    by (cases "track_points st") auto
  from clone_shape(2) [of ?ps "next_oid st + 16"] c
  have sh: "map shape_of new_points = map shape_of ?ps" by simp
  then obtain d ds where nd: "new_points = d # ds" and d: "shape_of d = shape_of (fst (snd p))"
    by (cases new_points) (auto simp: ps case_prod_unfold)
  from assms(3) ps have "tag (fst (snd p)) = gpx ''trkpt'' \<or> tag (fst (snd p)) = gpx ''wpt''"
    by simp
  with shape_of_tag [OF d] split_qname_points
  obtain l where q: "split_qname (tag d) = Some (GPX_NAMESPACE, l)"
    by auto
  have "d \<in> set (iter ?root)"
    using iter_self [of d] by (simp add: nd)
  from namespaces_of_gpx [OF this q]
  have x: "''xmlns'' \<in> set (namespace_declarations ?root)"
    by (rule xmlns_declared)
  have a: "(''xmlns'', GPX_NAMESPACE) \<in> set (items (attrib ?root))"
    by simp
  have m: "merge_to_file open_error now output_path st =
           Inr (st\<lparr>written := written st @ [(output_path, ?root)],
                  stdout := stdout st @
                    [[CHR 0xE2, CHR 0x9C, CHR 0x93] @ '' Merged GPX file created: '' @ output_path,
                     ''  Total track points merged: '' @ str_nat (length (track_points st))],
                  next_oid := n'\<rparr>)"
    unfolding merge_to_file_nonempty [OF assms(1) c] by (simp add: assms(2))
  have t: "tag ?root = ''gpx''" by simp
  show ?thesis
    apply (rule exI, rule exI [where x = ?root])
    apply (intro conjI)
         apply (rule m)
        apply simp
       apply (rule t)
      apply (rule a)
     apply (rule x)
    apply (rule start_tag_duplicate [OF x a])
    done
qed

lemma document_points_tags:
  assumes "p \<in> set (document_points fi c f)"
  shows "tag (fst (snd p)) = gpx ''trkpt'' \<or> tag (fst (snd p)) = gpx ''wpt''"
proof (cases c)
  case (Document root)
  with assms obtain pt where pt: "pt \<in> set (candidates root)"
    and r: "point_record fi f pt = Some p"
    by (auto simp: document_points_def map_filter_def)
  from r have "fst (snd p) = pt"
    by (auto simp: point_record_def split: option.splits)
  with pt show ?thesis
    by (auto simp: candidates_def findall_descendants_def)
qed (use assms in \<open>simp_all add: document_points_def\<close>)

lemma sample_parse_from:
  "parse_files iso_datetime sample_fs [''a.gpx'', ''b.gpx''] ((initial 100)\<lparr>stdout := s\<rparr>) =
     (Returned, sample_parsed\<lparr>stdout := s @ [''Processing: a.gpx'', ''Processing: b.gpx'']\<rparr>)"
  by (simp add: parse_gpx_file_def sample_fs_def extract_track_points_char candidates_doc_a
      candidates_doc_b point_record_samples point_warning_samples metadata_doc_a
      map_filter_simps initial_def sample_parsed_def)

lemma sample_sort_from:
  "sort_by_timestamp (sample_parsed\<lparr>stdout := s\<rparr>) = Inr (sample_sorted\<lparr>stdout := s\<rparr>)"
  by (simp add: sort_by_timestamp_def sample_parsed_def sample_sorted_def
      ts_0900_def ts_1000_def ts_1200_plus2_def)

lemma sample_merge_from:
  "merge_to_file writable now ''merged.gpx'' (sample_sorted\<lparr>stdout := s\<rparr>) =
     Inr (sample_sorted\<lparr>written := [(''merged.gpx'', sample_output now)],
            stdout := s @
              [[CHR 0xE2, CHR 0x9C, CHR 0x93] @ '' Merged GPX file created: merged.gpx'',
               ''  Total track points merged: 4''],
            next_oid := 136\<rparr>)"
proof -
  have c: "clone_children
      (map (\<lambda>(timestamp, point_elem, source_file). point_elem)
         (track_points (sample_sorted\<lparr>stdout := s\<rparr>)))
      (next_oid (sample_sorted\<lparr>stdout := s\<rparr>) + 16) =
      (children (hd (tl (children (hd (tl (children (sample_output now))))))), 136)"
    by (simp add: sample_sorted_def sample_parsed_def sample_defs sample_output_def)
  have n: "track_points (sample_sorted\<lparr>stdout := s\<rparr>) \<noteq> []"
    by (simp add: sample_sorted_def)
  have s: "str_nat (Suc (Suc (Suc (Suc 0)))) = ''4''"
    by (subst str_nat.simps) simp
  show ?thesis
    unfolding merge_to_file_nonempty [OF n c]
    by (simp add: writable_def sample_sorted_def sample_parsed_def sample_output_def node_def
        leaf_def metadata_get_def s)
qed

lemma sample_main:
  "main iso_datetime sample_fs writable now [''a.gpx'', ''b.gpx''] ''merged.gpx'' (initial 100) =
     (Returned,
      sample_sorted\<lparr>written := [(''merged.gpx'', sample_output now)],
        stdout := [''Found 2 GPX file(s) to merge:'', ''  - a.gpx'', ''  - b.gpx'',
                   ''Processing: a.gpx'', ''Processing: b.gpx'',
                   [CHR 0xE2, CHR 0x9C, CHR 0x93] @ '' Merged GPX file created: merged.gpx'',
                   ''  Total track points merged: 4''],
        next_oid := 136\<rparr>)"
proof -
  have s: "str_nat (Suc (Suc 0)) = ''2''"
    by (subst str_nat.simps) simp
  have i: "(initial 100)\<lparr>stdout := stdout (initial 100) @
         (''Found '' @ str_nat (length [''a.gpx'', ''b.gpx'']) @ '' GPX file(s) to merge:'') #
         map (\<lambda>f. ''  - '' @ f) [''a.gpx'', ''b.gpx'']\<rparr> =
        (initial 100)\<lparr>stdout := [''Found 2 GPX file(s) to merge:'', ''  - a.gpx'', ''  - b.gpx'']\<rparr>"
    by (simp add: initial_def s)
  have ne: "[''a.gpx'', ''b.gpx''] \<noteq> []" by simp
  show ?thesis
    unfolding main_returned [OF ne sample_parse_from [of "[''Found 2 GPX file(s) to merge:'', ''  - a.gpx'', ''  - b.gpx'']", folded i]]
    by (simp add: sample_sort_from sample_merge_from)
qed

section \<open>The claims\<close>



text \<open>
  C3. A run over the one document \<^verbatim>\<open>c.gpx\<close>, which holds no point with a time: nothing is
  written and the error line is printed, but \<^verbatim>\<open>main\<close> returns, so the process ends with
  exit status 0.
\<close>

theorem main_without_points_exits_zero:
  "fst (main iso_datetime sample_fs writable ''2024-06-01T00:00:00'' [''c.gpx''] ''merged.gpx''
          (initial 100)) = Returned
   \<and> exit_status (fst (main iso_datetime sample_fs writable ''2024-06-01T00:00:00'' [''c.gpx'']
          ''merged.gpx'' (initial 100))) = 0
   \<and> written (snd (main iso_datetime sample_fs writable ''2024-06-01T00:00:00'' [''c.gpx'']
          ''merged.gpx'' (initial 100))) = []
   \<and> stderr (snd (main iso_datetime sample_fs writable ''2024-06-01T00:00:00'' [''c.gpx'']
          ''merged.gpx'' (initial 100))) = [''Error: No track points found to merge.'']"
proof -
  have c: "candidates doc_c =
      [node 76 (gpx ''trkpt'') [(''lat'', ''5.0''), (''lon'', ''6.0'')] [leaf 78 (gpx ''ele'') ''3.0'']]"
    by (simp add: candidates_def findall_descendants_def sample_defs gpx_def)
  have r: "point_record iso_datetime ''c.gpx''
      (node 76 (gpx ''trkpt'') [(''lat'', ''5.0''), (''lon'', ''6.0'')] [leaf 78 (gpx ''ele'') ''3.0'']) = None"
    "point_warning iso_datetime ''c.gpx''
      (node 76 (gpx ''trkpt'') [(''lat'', ''5.0''), (''lon'', ''6.0'')] [leaf 78 (gpx ''ele'') ''3.0'']) = None"
    by (simp_all add: point_record_def point_warning_def timestamp_text_def find_child_def
        sample_defs gpx_def)
  have m: "extract_metadata doc_c st = st" for st
    by (simp add: extract_metadata_def find_child_def sample_defs gpx_def)
  have "main iso_datetime sample_fs writable ''2024-06-01T00:00:00'' [''c.gpx''] ''merged.gpx''
          (initial 100) =
        (Returned,
         (initial 100)\<lparr>stdout := [''Found 1 GPX file(s) to merge:'', ''  - c.gpx'',
                                    ''Processing: c.gpx''],
                        stderr := [''Error: No track points found to merge.'']\<rparr>)"
    by (simp add: main_def parse_gpx_file_def sample_fs_def extract_track_points_char c r m
        map_filter_simps initial_def sort_by_timestamp_def merge_to_file_def Let_def
        str_nat.simps [of "Suc 0"])
  then show ?thesis by (simp add: initial_def)
qed

text \<open>
  C5. A candidate without a \<^verbatim>\<open>time\<close> child, or whose \<^verbatim>\<open>time\<close> child has no text or an empty
  one, leaves the whole state as it is: no record, no warning. A candidate whose text does
  not parse adds one warning, which holds the text and the file path, and nothing else.
  The result for a document is the state with the records and the warnings of its
  candidates appended, each candidate counted by itself, and reading a well-formed
  document never raises.
\<close>

theorem extract_point_failures:
  "(find_child (gpx ''time'') pt = None \<longrightarrow> extract_point fromisoformat file_path pt st = st)
   \<and> (\<forall>time_elem. find_child (gpx ''time'') pt = Some time_elem
         \<and> (elem_text time_elem = None \<or> elem_text time_elem = Some [])
         \<longrightarrow> extract_point fromisoformat file_path pt st = st)
   \<and> (\<forall>time_elem t. find_child (gpx ''time'') pt = Some time_elem
         \<and> elem_text time_elem = Some t \<and> t \<noteq> [] \<and> fromisoformat (replace_Z t) = None
         \<longrightarrow> extract_point fromisoformat file_path pt st =
               st\<lparr>stderr := stderr st @
                 [''Warning: Could not parse timestamp '' @ quoted t @ '' from '' @ file_path]\<rparr>)
   \<and> extract_track_points fromisoformat root file_path st =
       st\<lparr>track_points := track_points st @
             List.map_filter (point_record fromisoformat file_path) (candidates root),
          stderr := stderr st @
             List.map_filter (point_warning fromisoformat file_path) (candidates root)\<rparr>
   \<and> (\<forall>r. fs file_path = Document r
         \<longrightarrow> (\<exists>st'. parse_gpx_file fromisoformat fs file_path st = Inr st'))"
proof (intro conjI allI impI)
  assume "find_child (gpx ''time'') pt = None"
  then show "extract_point fromisoformat file_path pt st = st"
    by (simp add: extract_point_def)
next
  fix time_elem
  assume "find_child (gpx ''time'') pt = Some time_elem
         \<and> (elem_text time_elem = None \<or> elem_text time_elem = Some [])"
  then show "extract_point fromisoformat file_path pt st = st"
    by (auto simp: extract_point_def)
next
  fix time_elem t
  assume "find_child (gpx ''time'') pt = Some time_elem
         \<and> elem_text time_elem = Some t \<and> t \<noteq> [] \<and> fromisoformat (replace_Z t) = None"
  then show "extract_point fromisoformat file_path pt st =
               st\<lparr>stderr := stderr st @
                 [''Warning: Could not parse timestamp '' @ quoted t @ '' from '' @ file_path]\<rparr>"
    by (simp add: extract_point_def)
next
  show "extract_track_points fromisoformat root file_path st =
       st\<lparr>track_points := track_points st @
             List.map_filter (point_record fromisoformat file_path) (candidates root),
          stderr := stderr st @
             List.map_filter (point_warning fromisoformat file_path) (candidates root)\<rparr>"
    by (rule extract_track_points_char)
next
  fix r
  assume "fs file_path = Document r"
  then show "\<exists>st'. parse_gpx_file fromisoformat fs file_path st = Inr st'"
    by (simp add: parse_gpx_file_def)
qed

theorem extract_point_failures_witness:
  "extract_point iso_datetime ''a.gpx'' trkpt_a4 (initial 100) = initial 100
   \<and> extract_point iso_datetime ''a.gpx'' trkpt_a5 (initial 100) = initial 100
   \<and> extract_point iso_datetime ''a.gpx'' trkpt_a3 (initial 100) =
       (initial 100)\<lparr>stderr := stderr (initial 100) @
         [''Warning: Could not parse timestamp '' @ quoted ''yesterday'' @ '' from '' @ ''a.gpx'']\<rparr>
   \<and> extract_track_points iso_datetime doc_a ''a.gpx'' (initial 100) = sample_a_extracted
   \<and> (\<exists>st'. parse_gpx_file iso_datetime sample_fs ''a.gpx'' (initial 100) = Inr st')"
proof -
  have a4: "find_child (gpx ''time'') trkpt_a4 = None"
    by (simp add: find_child_def sample_defs gpx_def)
  have a5: "find_child (gpx ''time'') trkpt_a5 = Some (node 36 (gpx ''time'') [] [])
            \<and> (elem_text (node 36 (gpx ''time'') [] []) = None
                \<or> elem_text (node 36 (gpx ''time'') [] []) = Some [])"
    by (simp add: find_child_def sample_defs gpx_def)
  have a3: "find_child (gpx ''time'') trkpt_a3 = Some (leaf 28 (gpx ''time'') ''yesterday'')
            \<and> elem_text (leaf 28 (gpx ''time'') ''yesterday'') = Some ''yesterday''
            \<and> ''yesterday'' \<noteq> [] \<and> iso_datetime (replace_Z ''yesterday'') = None"
    by (simp add: find_child_def sample_defs gpx_def iso_defs)
  have d: "sample_fs ''a.gpx'' = Document doc_a"
    by (simp add: sample_fs_def)
  note t4 = extract_point_failures [of trkpt_a4 iso_datetime "''a.gpx''" "initial 100" doc_a sample_fs]
  note t5 = extract_point_failures [of trkpt_a5 iso_datetime "''a.gpx''" "initial 100" doc_a sample_fs]
  note t3 = extract_point_failures [of trkpt_a3 iso_datetime "''a.gpx''" "initial 100" doc_a sample_fs]
  from t4 a4 have 1: "extract_point iso_datetime ''a.gpx'' trkpt_a4 (initial 100) = initial 100"
    by blast
  from t5 a5 have 2: "extract_point iso_datetime ''a.gpx'' trkpt_a5 (initial 100) = initial 100"
    by blast
  from t3 a3 have 3: "extract_point iso_datetime ''a.gpx'' trkpt_a3 (initial 100) =
       (initial 100)\<lparr>stderr := stderr (initial 100) @
         [''Warning: Could not parse timestamp '' @ quoted ''yesterday'' @ '' from '' @ ''a.gpx'']\<rparr>"
    by blast
  from t3 d have 5: "\<exists>st'. parse_gpx_file iso_datetime sample_fs ''a.gpx'' (initial 100) = Inr st'"
    by blast
  from 1 2 3 sample_a_extract 5 show ?thesis by blast
qed








text \<open>
  C6. Let the metadata of the run be empty, let the first inputs be documents that yield no
  metadata, and let the next document yield some: a name, a description or both. Then all
  inputs are read and the metadata of the run is exactly what that document yields: the
  documents before it contribute nothing and the documents after it change nothing, not
  even a field it left out. When the timestamps collected are of one kind, there is a
  point and the output can be opened, the sort and the write return, and the document
  written carries the name and the description that document yields, with the built-in
  default for a field it left out. In general, reading a document while the metadata is
  not empty leaves the metadata as it is.
\<close>

theorem metadata_first_document_wins:
  assumes "metadata st0 = []"
    and "\<forall>g \<in> set pre. \<exists>d. fs g = Document d \<and> document_metadata d = []"
    and "fs f1 = Document d1"
    and "document_metadata d1 \<noteq> []"
    and "\<forall>g \<in> set rest. \<exists>d. fs g = Document d"
  shows "\<exists>st1. parse_files fromisoformat fs (pre @ f1 # rest) st0 = (Returned, st1)
           \<and> metadata st1 = document_metadata d1
           \<and> (same_kind (track_points st1) \<and> track_points st1 \<noteq> []
                 \<and> open_error output_path = None
                 \<longrightarrow> (\<exists>st2 st3 root.
                        sort_by_timestamp st1 = Inr st2
                        \<and> merge_to_file open_error now output_path st2 = Inr st3
                        \<and> written st3 = written st2 @ [(output_path, root)]
                        \<and> written_field ''name'' root =
                            Some (case map_of (document_metadata d1) ''name'' of
                                    None \<Rightarrow> Some ''Merged GPX Track'' | Some v \<Rightarrow> v)
                        \<and> written_field ''desc'' root =
                            Some (case map_of (document_metadata d1) ''desc'' of
                                    None \<Rightarrow> Some ''Merged from multiple GPX files''
                                  | Some v \<Rightarrow> v)))
           \<and> (\<forall>st f st'. metadata st \<noteq> [] \<and> parse_gpx_file fromisoformat fs f st = Inr st'
                 \<longrightarrow> metadata st' = metadata st)"
proof -
  from parse_files_metadata_first [OF assms, of fromisoformat]
  obtain st1 where p: "parse_files fromisoformat fs (pre @ f1 # rest) st0 = (Returned, st1)"
    and m1: "metadata st1 = document_metadata d1"
    by blast
  let ?st2 = "st1\<lparr>track_points := sort_key key_of (track_points st1)\<rparr>"
  have w: "\<exists>st2 st3 root.
             sort_by_timestamp st1 = Inr st2
             \<and> merge_to_file open_error now output_path st2 = Inr st3
             \<and> written st3 = written st2 @ [(output_path, root)]
             \<and> written_field ''name'' root =
                 Some (case map_of (document_metadata d1) ''name'' of
                         None \<Rightarrow> Some ''Merged GPX Track'' | Some v \<Rightarrow> v)
             \<and> written_field ''desc'' root =
                 Some (case map_of (document_metadata d1) ''desc'' of
                         None \<Rightarrow> Some ''Merged from multiple GPX files''
                       | Some v \<Rightarrow> v)"
    if h: "same_kind (track_points st1) \<and> track_points st1 \<noteq> []
           \<and> open_error output_path = None"
  proof -
    from h have sk: "same_kind (track_points st1)" and ne1: "track_points st1 \<noteq> []"
      and oe: "open_error output_path = None"
      by blast+
    have s: "sort_by_timestamp st1 = Inr ?st2"
      using sk by (simp add: sort_by_timestamp_char)
    have m2: "metadata ?st2 = document_metadata d1"
      using m1 by simp
    have ne: "track_points ?st2 \<noteq> []"
    proof
      assume "track_points ?st2 = []"
      then have "length (sort_key key_of (track_points st1)) = 0" by simp
      with ne1 show False by simp
    qed
    from merge_to_file_writes
        [where open_error = open_error and output_path = output_path and now = now, OF ne oe]
    obtain st3 root where g: "merge_to_file open_error now output_path ?st2 = Inr st3"
      and wr: "written st3 = written ?st2 @ [(output_path, root)]"
      and fn: "written_field ''name'' root = Some (metadata_get ?st2 ''name'' ''Merged GPX Track'')"
      and fd: "written_field ''desc'' root =
                 Some (metadata_get ?st2 ''desc'' ''Merged from multiple GPX files'')"
      by blast
    from fn have fn': "written_field ''name'' root =
                 Some (case map_of (document_metadata d1) ''name'' of
                         None \<Rightarrow> Some ''Merged GPX Track'' | Some v \<Rightarrow> v)"
      by (simp add: metadata_get_def m1)
    from fd have fd': "written_field ''desc'' root =
                 Some (case map_of (document_metadata d1) ''desc'' of
                         None \<Rightarrow> Some ''Merged from multiple GPX files''
                       | Some v \<Rightarrow> v)"
      by (simp add: metadata_get_def m1)
    from s g wr fn' fd' show ?thesis by blast
  qed
  have k: "\<forall>st f st'. metadata st \<noteq> [] \<and> parse_gpx_file fromisoformat fs f st = Inr st'
             \<longrightarrow> metadata st' = metadata st"
    using parse_gpx_file_metadata_kept by blast
  from p m1 w k show ?thesis by blast
qed

theorem metadata_first_document_wins_witness:
  "document_metadata doc_a = [(''name'', Some ''A'')]
   \<and> document_metadata doc_b = [(''name'', Some ''B''), (''desc'', Some ''X'')]
   \<and> document_metadata doc_c = []
   \<and> parse_files iso_datetime sample_fs ([] @ ''a.gpx'' # [''b.gpx'']) (initial 100) =
       (Returned, sample_parsed)
   \<and> metadata sample_parsed = [(''name'', Some ''A'')]
   \<and> sort_by_timestamp sample_parsed = Inr sample_sorted
   \<and> (\<exists>st3 root.
         merge_to_file writable ''2024-06-01T00:00:00'' ''merged.gpx'' sample_sorted = Inr st3
         \<and> written st3 = written sample_sorted @ [(''merged.gpx'', root)]
         \<and> written_field ''name'' root = Some (Some ''A'')
         \<and> written_field ''desc'' root = Some (Some ''Merged from multiple GPX files''))
   \<and> (\<exists>st1 st2 st3 root.
         parse_files iso_datetime sample_fs ([''c.gpx''] @ ''b.gpx'' # [''a.gpx''])
           (initial 100) = (Returned, st1)
         \<and> metadata st1 = [(''name'', Some ''B''), (''desc'', Some ''X'')]
         \<and> sort_by_timestamp st1 = Inr st2
         \<and> merge_to_file writable ''2024-06-01T00:00:00'' ''merged.gpx'' st2 = Inr st3
         \<and> written st3 = written st2 @ [(''merged.gpx'', root)]
         \<and> written_field ''name'' root = Some (Some ''B'')
         \<and> written_field ''desc'' root = Some (Some ''X''))"
proof -
  have da: "document_metadata doc_a = [(''name'', Some ''A'')]"
    by (simp add: document_metadata_def find_child_def sample_defs gpx_def)
  have db: "document_metadata doc_b = [(''name'', Some ''B''), (''desc'', Some ''X'')]"
    by (simp add: document_metadata_def find_child_def sample_defs gpx_def)
  have dc: "document_metadata doc_c = []"
    by (simp add: document_metadata_def find_child_def sample_defs gpx_def)
  have m0: "metadata (initial 100) = []"
    by (simp add: initial_def)
  have fa: "sample_fs ''a.gpx'' = Document doc_a" and fb: "sample_fs ''b.gpx'' = Document doc_b"
    by (simp_all add: sample_fs_def)
  have wr: "writable ''merged.gpx'' = None"
    by (simp add: writable_def)
  \<comment> \<open>first \<^verbatim>\<open>a.gpx\<close>, then \<^verbatim>\<open>b.gpx\<close>\<close>
  have pre1: "\<forall>g \<in> set []. \<exists>d. sample_fs g = Document d \<and> document_metadata d = []"
    by simp
  have ne1: "document_metadata doc_a \<noteq> []"
    by (simp add: da)
  have rest1: "\<forall>g \<in> set [''b.gpx'']. \<exists>d. sample_fs g = Document d"
    by (simp add: sample_fs_def)
  have p1: "parse_files iso_datetime sample_fs ([] @ ''a.gpx'' # [''b.gpx'']) (initial 100) =
       (Returned, sample_parsed)"
    using sample_parse by simp
  from metadata_first_document_wins [OF m0 pre1 fa ne1 rest1, of iso_datetime writable
      "''merged.gpx''" "''2024-06-01T00:00:00''"]
  obtain st1 where q1: "parse_files iso_datetime sample_fs ([] @ ''a.gpx'' # [''b.gpx''])
        (initial 100) = (Returned, st1)"
    and m1: "metadata st1 = document_metadata doc_a"
    and w1: "same_kind (track_points st1) \<and> track_points st1 \<noteq> []
                 \<and> writable ''merged.gpx'' = None
                 \<longrightarrow> (\<exists>st2 st3 root.
                        sort_by_timestamp st1 = Inr st2
                        \<and> merge_to_file writable ''2024-06-01T00:00:00'' ''merged.gpx'' st2 = Inr st3
                        \<and> written st3 = written st2 @ [(''merged.gpx'', root)]
                        \<and> written_field ''name'' root =
                            Some (case map_of (document_metadata doc_a) ''name'' of
                                    None \<Rightarrow> Some ''Merged GPX Track'' | Some v \<Rightarrow> v)
                        \<and> written_field ''desc'' root =
                            Some (case map_of (document_metadata doc_a) ''desc'' of
                                    None \<Rightarrow> Some ''Merged from multiple GPX files''
                                  | Some v \<Rightarrow> v))"
    by blast
  from q1 p1 have e1: "st1 = sample_parsed" by simp
  have n1: "track_points sample_parsed \<noteq> []"
    by (simp add: sample_parsed_def)
  from w1 [unfolded e1, THEN mp, OF conjI [OF sample_same_kind conjI [OF n1 wr]]]
  obtain st2 st3 root where "sort_by_timestamp sample_parsed = Inr st2"
    "merge_to_file writable ''2024-06-01T00:00:00'' ''merged.gpx'' st2 = Inr st3"
    "written st3 = written st2 @ [(''merged.gpx'', root)]"
    "written_field ''name'' root = Some (Some ''A'')"
    "written_field ''desc'' root = Some (Some ''Merged from multiple GPX files'')"
    unfolding da by auto
  with sample_sort have A: "\<exists>st3 root.
         merge_to_file writable ''2024-06-01T00:00:00'' ''merged.gpx'' sample_sorted = Inr st3
         \<and> written st3 = written sample_sorted @ [(''merged.gpx'', root)]
         \<and> written_field ''name'' root = Some (Some ''A'')
         \<and> written_field ''desc'' root = Some (Some ''Merged from multiple GPX files'')"
    by auto
  have ms: "metadata sample_parsed = [(''name'', Some ''A'')]"
    using m1 e1 da by simp
  \<comment> \<open>first \<^verbatim>\<open>c.gpx\<close>, which yields nothing, then \<^verbatim>\<open>b.gpx\<close>, then \<^verbatim>\<open>a.gpx\<close>\<close>
  have pre2: "\<forall>g \<in> set [''c.gpx'']. \<exists>d. sample_fs g = Document d \<and> document_metadata d = []"
    by (simp add: sample_fs_def dc)
  have ne2: "document_metadata doc_b \<noteq> []"
    by (simp add: db)
  have rest2: "\<forall>g \<in> set [''a.gpx'']. \<exists>d. sample_fs g = Document d"
    by (simp add: sample_fs_def)
  from metadata_first_document_wins [OF m0 pre2 fb ne2 rest2, of iso_datetime writable
      "''merged.gpx''" "''2024-06-01T00:00:00''"]
  obtain st1' where q2: "parse_files iso_datetime sample_fs ([''c.gpx''] @ ''b.gpx'' # [''a.gpx''])
        (initial 100) = (Returned, st1')"
    and m2: "metadata st1' = document_metadata doc_b"
    and w2: "same_kind (track_points st1') \<and> track_points st1' \<noteq> []
                 \<and> writable ''merged.gpx'' = None
                 \<longrightarrow> (\<exists>st2 st3 root.
                        sort_by_timestamp st1' = Inr st2
                        \<and> merge_to_file writable ''2024-06-01T00:00:00'' ''merged.gpx'' st2 = Inr st3
                        \<and> written st3 = written st2 @ [(''merged.gpx'', root)]
                        \<and> written_field ''name'' root =
                            Some (case map_of (document_metadata doc_b) ''name'' of
                                    None \<Rightarrow> Some ''Merged GPX Track'' | Some v \<Rightarrow> v)
                        \<and> written_field ''desc'' root =
                            Some (case map_of (document_metadata doc_b) ''desc'' of
                                    None \<Rightarrow> Some ''Merged from multiple GPX files''
                                  | Some v \<Rightarrow> v))"
    by blast
  have dpc: "document_points iso_datetime (sample_fs ''c.gpx'') ''c.gpx'' = []"
    by (simp add: document_points_def sample_fs_def candidates_def findall_descendants_def
        point_record_def timestamp_text_def find_child_def sample_defs gpx_def map_filter_simps)
  have tp: "track_points st1' =
      [(ts_1200_plus2, trkpt_b1, ''b.gpx''), (ts_1000, trkpt_a1, ''a.gpx''),
       (ts_0900, trkpt_a2, ''a.gpx''), (ts_1000, wpt_a, ''a.gpx'')]"
    using parse_files_points [OF q2] by (simp add: document_points_samples dpc initial_def)
  have sk: "same_kind (track_points st1')"
    by (simp add: tp same_kind_def aware_def ts_0900_def ts_1000_def ts_1200_plus2_def)
  have n2: "track_points st1' \<noteq> []"
    by (simp add: tp)
  from w2 [THEN mp, OF conjI [OF sk conjI [OF n2 wr]]]
  obtain st2' st3' root' where "sort_by_timestamp st1' = Inr st2'"
    "merge_to_file writable ''2024-06-01T00:00:00'' ''merged.gpx'' st2' = Inr st3'"
    "written st3' = written st2' @ [(''merged.gpx'', root')]"
    "written_field ''name'' root' = Some (Some ''B'')"
    "written_field ''desc'' root' = Some (Some ''X'')"
    unfolding db by auto
  with q2 m2 have B: "\<exists>st1 st2 st3 root.
         parse_files iso_datetime sample_fs ([''c.gpx''] @ ''b.gpx'' # [''a.gpx''])
           (initial 100) = (Returned, st1)
         \<and> metadata st1 = [(''name'', Some ''B''), (''desc'', Some ''X'')]
         \<and> sort_by_timestamp st1 = Inr st2
         \<and> merge_to_file writable ''2024-06-01T00:00:00'' ''merged.gpx'' st2 = Inr st3
         \<and> written st3 = written st2 @ [(''merged.gpx'', root)]
         \<and> written_field ''name'' root = Some (Some ''B'')
         \<and> written_field ''desc'' root = Some (Some ''X'')"
    unfolding db by blast
  show ?thesis
    by (intro conjI da db dc p1 ms sample_sort A B)
qed

text \<open>
  C10. Extraction appends the track points of a document in document order and only then
  its waypoints in document order. When the timestamps of the collection are of one kind,
  the sort returns, and the records of the document at any one instant are its track
  points followed by its waypoints, also when a waypoint stands earlier in the document.
  The written document holds the points in that order: when the output can be opened, the
  children of its \<^verbatim>\<open>trkseg\<close> have, one by one, the content of the elements of the sorted
  collection.
\<close>

theorem extract_trkpt_before_wpt:
  "track_points (extract_track_points fromisoformat root file_path st) =
     track_points st @
     List.map_filter (point_record fromisoformat file_path)
       (findall_descendants (gpx ''trkpt'') root) @
     List.map_filter (point_record fromisoformat file_path)
       (findall_descendants (gpx ''wpt'') root)
   \<and> (same_kind (track_points (extract_track_points fromisoformat root file_path st)) \<longrightarrow>
        (\<exists>st'. sort_by_timestamp (extract_track_points fromisoformat root file_path st) = Inr st'
           \<and> (\<forall>k. filter (\<lambda>p. key_of p = k) (track_points st') =
                 filter (\<lambda>p. key_of p = k) (track_points st) @
                 filter (\<lambda>p. key_of p = k)
                   (List.map_filter (point_record fromisoformat file_path)
                      (findall_descendants (gpx ''trkpt'') root)) @
                 filter (\<lambda>p. key_of p = k)
                   (List.map_filter (point_record fromisoformat file_path)
                      (findall_descendants (gpx ''wpt'') root)))
           \<and> (track_points st' \<noteq> [] \<and> open_error output_path = None \<longrightarrow>
                (\<exists>st'' out_root.
                   merge_to_file open_error now output_path st' = Inr st''
                   \<and> written st'' = written st @ [(output_path, out_root)]
                   \<and> map shape_of (written_points out_root) =
                       map (\<lambda>(timestamp, point_elem, source_file). shape_of point_elem)
                         (track_points st')))))"
proof (intro conjI impI)
  show "track_points (extract_track_points fromisoformat root file_path st) =
     track_points st @
     List.map_filter (point_record fromisoformat file_path)
       (findall_descendants (gpx ''trkpt'') root) @
     List.map_filter (point_record fromisoformat file_path)
       (findall_descendants (gpx ''wpt'') root)"
    by (rule extract_track_points_points)
next
  let ?e = "extract_track_points fromisoformat root file_path st"
  let ?st' = "?e\<lparr>track_points := sort_key key_of (track_points ?e)\<rparr>"
  assume sk: "same_kind (track_points ?e)"
  have r: "sort_by_timestamp ?e = Inr ?st'"
    using sk by (simp add: sort_by_timestamp_char)
  have f: "\<forall>k. filter (\<lambda>p. key_of p = k) (track_points ?st') =
                 filter (\<lambda>p. key_of p = k) (track_points st) @
                 filter (\<lambda>p. key_of p = k)
                   (List.map_filter (point_record fromisoformat file_path)
                      (findall_descendants (gpx ''trkpt'') root)) @
                 filter (\<lambda>p. key_of p = k)
                   (List.map_filter (point_record fromisoformat file_path)
                      (findall_descendants (gpx ''wpt'') root))"
    by (simp add: sort_key_stable extract_track_points_points)
  have w: "\<exists>st'' out_root.
                   merge_to_file open_error now output_path ?st' = Inr st''
                   \<and> written st'' = written st @ [(output_path, out_root)]
                   \<and> map shape_of (written_points out_root) =
                       map (\<lambda>(timestamp, point_elem, source_file). shape_of point_elem)
                         (track_points ?st')"
    if h: "track_points ?st' \<noteq> [] \<and> open_error output_path = None"
  proof -
    from h have ne: "track_points ?st' \<noteq> []" and oe: "open_error output_path = None"
      by blast+
    from merge_to_file_writes
      [where open_error = open_error and output_path = output_path and now = now, OF ne oe]
    obtain st'' out_root where
      m: "merge_to_file open_error now output_path ?st' = Inr st''"
      and wr: "written st'' = written ?st' @ [(output_path, out_root)]"
      and wp: "written_points out_root =
               fst (clone_children
                      (map (\<lambda>(timestamp, point_elem, source_file). point_elem)
                         (track_points ?st'))
                      (next_oid ?st' + 16))"
      by blast
    have "map shape_of (written_points out_root) =
            map (\<lambda>(timestamp, point_elem, source_file). shape_of point_elem) (track_points ?st')"
      unfolding wp by (rule written_points_shape)
    moreover have "written st'' = written st @ [(output_path, out_root)]"
      using wr by simp
    ultimately show ?thesis using m by blast
  qed
  have w': "track_points ?st' \<noteq> [] \<and> open_error output_path = None \<longrightarrow>
                (\<exists>st'' out_root.
                   merge_to_file open_error now output_path ?st' = Inr st''
                   \<and> written st'' = written st @ [(output_path, out_root)]
                   \<and> map shape_of (written_points out_root) =
                       map (\<lambda>(timestamp, point_elem, source_file). shape_of point_elem)
                         (track_points ?st'))"
    using w by blast
  show "\<exists>st'. sort_by_timestamp ?e = Inr st'
           \<and> (\<forall>k. filter (\<lambda>p. key_of p = k) (track_points st') =
                 filter (\<lambda>p. key_of p = k) (track_points st) @
                 filter (\<lambda>p. key_of p = k)
                   (List.map_filter (point_record fromisoformat file_path)
                      (findall_descendants (gpx ''trkpt'') root)) @
                 filter (\<lambda>p. key_of p = k)
                   (List.map_filter (point_record fromisoformat file_path)
                      (findall_descendants (gpx ''wpt'') root)))
           \<and> (track_points st' \<noteq> [] \<and> open_error output_path = None \<longrightarrow>
                (\<exists>st'' out_root.
                   merge_to_file open_error now output_path st' = Inr st''
                   \<and> written st'' = written st @ [(output_path, out_root)]
                   \<and> map shape_of (written_points out_root) =
                       map (\<lambda>(timestamp, point_elem, source_file). shape_of point_elem)
                         (track_points st')))"
    by (rule exI [where x = ?st'], intro conjI r f w')
qed

theorem extract_trkpt_before_wpt_witness:
  "filter (\<lambda>e. e = wpt_a \<or> e = trkpt_a1) (concat (map iter (children doc_a))) = [wpt_a, trkpt_a1]
   \<and> same_kind (track_points (extract_track_points iso_datetime doc_a ''a.gpx'' (initial 100)))
   \<and> sort_by_timestamp (extract_track_points iso_datetime doc_a ''a.gpx'' (initial 100)) =
       Inr sample_a_sorted
   \<and> filter (\<lambda>p. key_of p = key_of (ts_1000, wpt_a, ''a.gpx'')) (track_points sample_a_sorted) =
       [(ts_1000, trkpt_a1, ''a.gpx''), (ts_1000, wpt_a, ''a.gpx'')]
   \<and> track_points sample_a_sorted \<noteq> [] \<and> writable ''merged.gpx'' = None
   \<and> (\<exists>st'' out_root.
         merge_to_file writable ''2024-06-01T00:00:00'' ''merged.gpx'' sample_a_sorted = Inr st''
         \<and> written st'' = [(''merged.gpx'', out_root)]
         \<and> map shape_of (written_points out_root) =
             [shape_of trkpt_a2, shape_of trkpt_a1, shape_of wpt_a])"
proof -
  have sk: "same_kind (track_points (extract_track_points iso_datetime doc_a ''a.gpx''
      (initial 100)))"
    by (simp add: sample_a_extract sample_a_extracted_def same_kind_def aware_def
        ts_0900_def ts_1000_def)
  have s: "sort_by_timestamp (extract_track_points iso_datetime doc_a ''a.gpx'' (initial 100)) =
       Inr sample_a_sorted"
    by (simp add: sample_a_extract sample_a_sort)
  have ne: "track_points sample_a_sorted \<noteq> []"
    by (simp add: sample_a_sorted_def)
  have wr: "writable ''merged.gpx'' = None"
    by (simp add: writable_def)
  from extract_trkpt_before_wpt
    [where fromisoformat = iso_datetime and root = doc_a and file_path = "''a.gpx''"
       and st = "initial 100" and open_error = writable and output_path = "''merged.gpx''"
       and now = "''2024-06-01T00:00:00''", THEN conjunct2, THEN mp, OF sk]
  obtain st' where r: "sort_by_timestamp
      (extract_track_points iso_datetime doc_a ''a.gpx'' (initial 100)) = Inr st'"
    and f: "\<forall>k. filter (\<lambda>p. key_of p = k) (track_points st') =
                 filter (\<lambda>p. key_of p = k) (track_points (initial 100)) @
                 filter (\<lambda>p. key_of p = k)
                   (List.map_filter (point_record iso_datetime ''a.gpx'')
                      (findall_descendants (gpx ''trkpt'') doc_a)) @
                 filter (\<lambda>p. key_of p = k)
                   (List.map_filter (point_record iso_datetime ''a.gpx'')
                      (findall_descendants (gpx ''wpt'') doc_a))"
    and w: "track_points st' \<noteq> [] \<and> writable ''merged.gpx'' = None \<longrightarrow>
                (\<exists>st'' out_root.
                   merge_to_file writable ''2024-06-01T00:00:00'' ''merged.gpx'' st' = Inr st''
                   \<and> written st'' = written (initial 100) @ [(''merged.gpx'', out_root)]
                   \<and> map shape_of (written_points out_root) =
                       map (\<lambda>(timestamp, point_elem, source_file). shape_of point_elem)
                         (track_points st'))"
    by blast
  from r s have e: "st' = sample_a_sorted" by simp
  from f [unfolded e, rule_format, of "key_of (ts_1000, wpt_a, ''a.gpx'')"]
  have c: "filter (\<lambda>p. key_of p = key_of (ts_1000, wpt_a, ''a.gpx''))
      (track_points sample_a_sorted) =
       [(ts_1000, trkpt_a1, ''a.gpx''), (ts_1000, wpt_a, ''a.gpx'')]"
    by (simp add: findall_doc_a point_record_samples map_filter_simps initial_def key_of_def
        ts_0900_def ts_1000_def)
  from w [unfolded e] ne wr
  have o: "\<exists>st'' out_root.
         merge_to_file writable ''2024-06-01T00:00:00'' ''merged.gpx'' sample_a_sorted = Inr st''
         \<and> written st'' = [(''merged.gpx'', out_root)]
         \<and> map shape_of (written_points out_root) =
             [shape_of trkpt_a2, shape_of trkpt_a1, shape_of wpt_a]"
    by (simp add: initial_def sample_a_sorted_def)
  show ?thesis
    by (intro conjI iter_doc_a_order sk s c ne wr o)
qed

text \<open>
  C2. The clone of an element has the content of the element: the same tag, attribute
  items, text, tail and, recursively, children. It is made of new objects only: its
  identities are exactly those allocated during the call, so it has none in common with
  an element that existed before. When a document is written, the children of its
  \<^verbatim>\<open>trkseg\<close> have, one by one, the content of the point elements of the collection, no
  object in common with them, and no object in common with each other.
\<close>

theorem clone_element_equivalent_independent:
  "shape_of (fst (clone_element e n)) = shape_of e
   \<and> oids (fst (clone_element e n)) = [n..<snd (clone_element e n)]
   \<and> ((\<forall>i \<in> set (oids e). i < n) \<longrightarrow>
        set (oids (fst (clone_element e n))) \<inter> set (oids e) = {})
   \<and> (track_points st \<noteq> [] \<and> open_error output_path = None
        \<and> (\<forall>i \<in> set (concat (map (\<lambda>(timestamp, point_elem, source_file). oids point_elem)
                                   (track_points st))). i < next_oid st) \<longrightarrow>
        (\<exists>st' out_root.
           merge_to_file open_error now output_path st = Inr st'
           \<and> written st' = written st @ [(output_path, out_root)]
           \<and> map shape_of (written_points out_root) =
               map (\<lambda>(timestamp, point_elem, source_file). shape_of point_elem) (track_points st)
           \<and> set (concat (map oids (written_points out_root))) \<inter>
               set (concat (map (\<lambda>(timestamp, point_elem, source_file). oids point_elem)
                              (track_points st))) = {}
           \<and> distinct (concat (map oids (written_points out_root)))))"
proof (intro conjI impI)
  show "shape_of (fst (clone_element e n)) = shape_of e"
    by (rule clone_shape(1))
  show o: "oids (fst (clone_element e n)) = [n..<snd (clone_element e n)]"
    using clone_oids(1) [of n e] by simp
  show "set (oids (fst (clone_element e n))) \<inter> set (oids e) = {}"
    if "\<forall>i \<in> set (oids e). i < n"
    using that unfolding o by auto
next
  let ?ps = "map (\<lambda>(timestamp, point_elem, source_file). point_elem) (track_points st)"
  let ?old = "concat (map (\<lambda>(timestamp, point_elem, source_file). oids point_elem)
                        (track_points st))"
  assume h: "track_points st \<noteq> [] \<and> open_error output_path = None
        \<and> (\<forall>i \<in> set ?old. i < next_oid st)"
  then have ne: "track_points st \<noteq> []" and oe: "open_error output_path = None"
    and below: "\<forall>i \<in> set ?old. i < next_oid st"
    by blast+
  from merge_to_file_writes
    [where open_error = open_error and output_path = output_path and now = now, OF ne oe]
  obtain st' out_root where
    m: "merge_to_file open_error now output_path st = Inr st'"
    and wr: "written st' = written st @ [(output_path, out_root)]"
    and wp: "written_points out_root = fst (clone_children ?ps (next_oid st + 16))"
    by blast
  have sh: "map shape_of (written_points out_root) =
            map (\<lambda>(timestamp, point_elem, source_file). shape_of point_elem) (track_points st)"
    unfolding wp by (rule written_points_shape)
  have ids: "concat (map oids (written_points out_root)) =
             [next_oid st + 16..<snd (clone_children ?ps (next_oid st + 16))]"
    unfolding wp using clone_oids(2) [of "next_oid st + 16" ?ps] by simp
  have dj: "set (concat (map oids (written_points out_root))) \<inter> set ?old = {}"
    unfolding ids using below by fastforce
  have ds: "distinct (concat (map oids (written_points out_root)))"
    unfolding ids by simp
  from m wr sh dj ds
  show "\<exists>st' out_root.
           merge_to_file open_error now output_path st = Inr st'
           \<and> written st' = written st @ [(output_path, out_root)]
           \<and> map shape_of (written_points out_root) =
               map (\<lambda>(timestamp, point_elem, source_file). shape_of point_elem) (track_points st)
           \<and> set (concat (map oids (written_points out_root))) \<inter> set ?old = {}
           \<and> distinct (concat (map oids (written_points out_root)))"
    by blast
qed

theorem clone_element_equivalent_independent_witness:
  "oids trkpt_a1 = [14, 15, 16, 17, 18, 19, 20, 21]
   \<and> shape_of (fst (clone_element trkpt_a1 100)) = shape_of trkpt_a1
   \<and> oids (fst (clone_element trkpt_a1 100)) = [100, 101, 102, 103, 104, 105, 106, 107]
   \<and> set (oids (fst (clone_element trkpt_a1 100))) \<inter> set (oids trkpt_a1) = {}
   \<and> track_points sample_sorted \<noteq> [] \<and> writable ''merged.gpx'' = None
   \<and> (\<exists>st' out_root.
         merge_to_file writable ''2024-06-01T00:00:00'' ''merged.gpx'' sample_sorted = Inr st'
         \<and> written st' = [(''merged.gpx'', out_root)]
         \<and> map shape_of (written_points out_root) =
             [shape_of trkpt_a2, shape_of trkpt_a1, shape_of wpt_a, shape_of trkpt_b1]
         \<and> set (concat (map oids (written_points out_root))) \<inter>
             set (oids trkpt_a2 @ oids trkpt_a1 @ oids wpt_a @ oids trkpt_b1) = {}
         \<and> distinct (concat (map oids (written_points out_root))))"
proof -
  have o: "oids trkpt_a1 = [14, 15, 16, 17, 18, 19, 20, 21]"
    by (simp add: sample_defs)
  have b: "\<forall>i \<in> set (oids trkpt_a1). i < 100"
    by (simp add: o)
  have c: "clone_element trkpt_a1 100 =
      (Element 100 (gpx ''trkpt'') (Dict 101 [(''lat'', ''1.1''), (''lon'', ''2.1'')]) None None
         [Element 102 (gpx ''time'') (Dict 103 []) (Some ''2024-01-01T10:00:00Z'') None [],
          Element 104 (gpx ''extensions'') (Dict 105 []) None None
            [Element 106 ''{http://www.garmin.com/xmlschemas/TrackPointExtension/v1}hr''
               (Dict 107 []) (Some ''72'') None []]], 108)"
    by (simp add: sample_defs)
  have o': "oids (fst (clone_element trkpt_a1 100)) = [100, 101, 102, 103, 104, 105, 106, 107]"
    by (simp add: c)
  have ne: "track_points sample_sorted \<noteq> []"
    by (simp add: sample_sorted_def)
  have wr: "writable ''merged.gpx'' = None"
    by (simp add: writable_def)
  have old: "concat (map (\<lambda>(timestamp, point_elem, source_file). oids point_elem)
                       (track_points sample_sorted)) =
             oids trkpt_a2 @ oids trkpt_a1 @ oids wpt_a @ oids trkpt_b1"
    by (simp add: sample_sorted_def)
  have below: "\<forall>i \<in> set (concat (map (\<lambda>(timestamp, point_elem, source_file). oids point_elem)
                                   (track_points sample_sorted))). i < next_oid sample_sorted"
    unfolding old by (simp add: sample_sorted_def sample_parsed_def sample_defs)
  note t = clone_element_equivalent_independent
    [where e = trkpt_a1 and n = 100 and st = sample_sorted and open_error = writable
       and output_path = "''merged.gpx''" and now = "''2024-06-01T00:00:00''"]
  have 1: "shape_of (fst (clone_element trkpt_a1 100)) = shape_of trkpt_a1"
    by (rule t [THEN conjunct1])
  have 2: "set (oids (fst (clone_element trkpt_a1 100))) \<inter> set (oids trkpt_a1) = {}"
    by (rule t [THEN conjunct2, THEN conjunct2, THEN conjunct1, THEN mp, OF b])
  from t [THEN conjunct2, THEN conjunct2, THEN conjunct2, THEN mp, OF conjI [OF ne conjI [OF wr below]]]
  have 3: "\<exists>st' out_root.
         merge_to_file writable ''2024-06-01T00:00:00'' ''merged.gpx'' sample_sorted = Inr st'
         \<and> written st' = [(''merged.gpx'', out_root)]
         \<and> map shape_of (written_points out_root) =
             [shape_of trkpt_a2, shape_of trkpt_a1, shape_of wpt_a, shape_of trkpt_b1]
         \<and> set (concat (map oids (written_points out_root))) \<inter>
             set (oids trkpt_a2 @ oids trkpt_a1 @ oids wpt_a @ oids trkpt_b1) = {}
         \<and> distinct (concat (map oids (written_points out_root)))"
    unfolding old by (simp add: sample_sorted_def sample_parsed_def)
  show ?thesis
    by (intro conjI o 1 o' 2 ne wr 3)
qed

text \<open>
  C8. Whatever a run of \<^verbatim>\<open>main\<close> writes, it writes to the output path, and the root of the
  tree written has the unqualified tag \<^verbatim>\<open>gpx\<close>: it is in no namespace, and the GPX
  namespace is put on it as an attribute with the key \<^verbatim>\<open>xmlns\<close> (line 126). The points
  below it are clones of parsed elements and carry qualified names of the GPX namespace;
  for these the writer, with the empty prefix registered at line 19, adds a declaration
  \<^verbatim>\<open>xmlns\<close> of its own to the start tag of the root. The start tag of the root so holds
  the attribute name \<^verbatim>\<open>xmlns\<close> twice, and a parser that reads the file refuses it with
  \<^verbatim>\<open>duplicate attribute\<close>: the file is not a well-formed document.
\<close>

theorem written_root_duplicate_xmlns:
  assumes "(path, root) \<in> set (written (snd (main fromisoformat fs open_error now input_files
                                               output_path (initial n))))"
  shows "path = output_path
         \<and> tag root = ''gpx''
         \<and> split_qname (tag root) = None
         \<and> (''xmlns'', GPX_NAMESPACE) \<in> set (items (attrib root))
         \<and> ''xmlns'' \<in> set (namespace_declarations root)
         \<and> \<not> distinct (start_tag_names root)
         \<and> read_back otherwise position root =
             NotWellFormed (''duplicate attribute: '' @ position)"
proof -
  let ?st1 = "(initial n)\<lparr>stdout := stdout (initial n) @
         (''Found '' @ str_nat (length input_files) @ '' GPX file(s) to merge:'') #
         map (\<lambda>f. ''  - '' @ f) input_files\<rparr>"
  let ?run = "main fromisoformat fs open_error now input_files output_path (initial n)"
  have w1: "written ?st1 = []"
    by (simp add: initial_def)
  have ne: "input_files \<noteq> []"
  proof
    assume "input_files = []"
    then have "written (snd ?run) = []"
      by (simp add: main_def initial_def)
    with assms show False by simp
  qed
  obtain out st2 where p: "parse_files fromisoformat fs input_files ?st1 = (out, st2)"
    by (cases "parse_files fromisoformat fs input_files ?st1") blast
  from parse_files_written [OF p] w1 have w2: "written st2 = []"
    by simp
  have r: "out = Returned"
  proof (rule ccontr)
    assume o: "out \<noteq> Returned"
    from parse_files_outcome [of fromisoformat fs input_files ?st1] p o
    have "out = SystemExit 1"
      by (simp split: if_splits)
    with p have "parse_files fromisoformat fs input_files ?st1 = (SystemExit 1, st2)"
      by simp
    from main_exit [OF ne this] have "?run = (SystemExit 1, st2)" .
    with assms w2 show False by simp
  qed
  from p r have p': "parse_files fromisoformat fs input_files ?st1 = (Returned, st2)"
    by simp
  note m = main_returned [OF ne p', of open_error now output_path]
  let ?st3 = "st2\<lparr>track_points := sort_key key_of (track_points st2)\<rparr>"
  have s: "sort_by_timestamp st2 = Inr ?st3"
  proof (cases "same_kind (track_points st2)")
    case True
    then show ?thesis by (simp add: sort_by_timestamp_char)
  next
    case False
    then have "sort_by_timestamp st2 = Inl TypeError"
      by (simp add: sort_by_timestamp_char)
    with m have "?run = (Uncaught TypeError, st2)" by simp
    with assms w2 show ?thesis by simp
  qed
  have w3: "written ?st3 = []"
    using w2 by simp
  have tp: "track_points ?st3 \<noteq> []"
  proof
    assume "track_points ?st3 = []"
    from merge_to_file_empty [OF this, of open_error now output_path] m s
    have "?run = (Returned, ?st3\<lparr>stderr := stderr ?st3 @
                              [''Error: No track points found to merge.'']\<rparr>)"
      by simp
    with assms w2 show False by simp
  qed
  have oe: "open_error output_path = None"
  proof (cases "open_error output_path")
    case None
    then show ?thesis .
  next
    case (Some e)
    from merge_to_file_fails
      [where open_error = open_error and output_path = output_path and now = now, OF tp Some] m s
    have "?run = (Uncaught e, ?st3)" by simp
    with assms w2 show ?thesis by simp
  qed
  from parse_files_points [OF p']
  have "track_points st2 =
        concat (map (\<lambda>f. document_points fromisoformat (fs f) f) input_files)"
    by (simp add: initial_def)
  then have tags: "\<forall>p \<in> set (track_points ?st3).
           tag (fst (snd p)) = gpx ''trkpt'' \<or> tag (fst (snd p)) = gpx ''wpt''"
    using document_points_tags by auto
  from merge_root_start_tag
    [where open_error = open_error and output_path = output_path and now = now, OF tp oe tags]
  obtain st4 root' where g: "merge_to_file open_error now output_path ?st3 = Inr st4"
    and w4: "written st4 = written ?st3 @ [(output_path, root')]"
    and t: "tag root' = ''gpx''"
    and a: "(''xmlns'', GPX_NAMESPACE) \<in> set (items (attrib root'))"
    and x: "''xmlns'' \<in> set (namespace_declarations root')"
    and d: "\<not> distinct (start_tag_names root')"
    by blast
  from m s g have "?run = (Returned, st4)" by simp
  with assms w4 w3 have e: "path = output_path" "root = root'"
    by simp_all
  have q: "split_qname ''gpx'' = None"
    by (simp add: split_qname_def)
  from d have b: "read_back otherwise position root' =
      NotWellFormed (''duplicate attribute: '' @ position)"
    by (simp add: read_back_def)
  show ?thesis
    unfolding e using t a x d b q by simp
qed

theorem written_root_duplicate_xmlns_witness:
  "written (snd (main iso_datetime sample_fs writable ''2024-06-01T00:00:00''
                   [''a.gpx'', ''b.gpx''] ''merged.gpx'' (initial 100))) =
     [(''merged.gpx'', sample_output ''2024-06-01T00:00:00'')]
   \<and> tag (sample_output ''2024-06-01T00:00:00'') = ''gpx''
   \<and> map tag (written_points (sample_output ''2024-06-01T00:00:00'')) =
       [gpx ''trkpt'', gpx ''trkpt'', gpx ''wpt'', gpx ''trkpt'']
   \<and> namespace_declarations (sample_output ''2024-06-01T00:00:00'') = [''xmlns'', ''xmlns:ns1'']
   \<and> start_tag_names (sample_output ''2024-06-01T00:00:00'') =
       [''xmlns'', ''xmlns:ns1'', ''version'', ''creator'', ''xmlns'']
   \<and> \<not> distinct (start_tag_names (sample_output ''2024-06-01T00:00:00''))
   \<and> read_back Document ''line 2, column 157'' (sample_output ''2024-06-01T00:00:00'') =
       NotWellFormed ''duplicate attribute: line 2, column 157''"
proof -
  have w: "written (snd (main iso_datetime sample_fs writable ''2024-06-01T00:00:00''
                   [''a.gpx'', ''b.gpx''] ''merged.gpx'' (initial 100))) =
     [(''merged.gpx'', sample_output ''2024-06-01T00:00:00'')]"
    by (simp add: sample_main)
  then have h: "(''merged.gpx'', sample_output ''2024-06-01T00:00:00'')
      \<in> set (written (snd (main iso_datetime sample_fs writable ''2024-06-01T00:00:00''
                   [''a.gpx'', ''b.gpx''] ''merged.gpx'' (initial 100))))"
    by simp
  note t = written_root_duplicate_xmlns [OF h, of Document "''line 2, column 157''"]
  have 1: "tag (sample_output ''2024-06-01T00:00:00'') = ''gpx''"
    by (rule t [THEN conjunct2, THEN conjunct1])
  have 2: "\<not> distinct (start_tag_names (sample_output ''2024-06-01T00:00:00''))"
    using t by blast
  have 3: "read_back Document ''line 2, column 157'' (sample_output ''2024-06-01T00:00:00'') =
       NotWellFormed ''duplicate attribute: line 2, column 157''"
    using t by simp
  have 4: "map tag (written_points (sample_output ''2024-06-01T00:00:00'')) =
       [gpx ''trkpt'', gpx ''trkpt'', gpx ''wpt'', gpx ''trkpt'']"
    by (simp add: written_points_def find_child_def sample_output_def node_def leaf_def)
  have 5: "namespace_declarations (sample_output ''2024-06-01T00:00:00'') =
       [''xmlns'', ''xmlns:ns1'']"
    unfolding namespace_declarations_def sample_namespaces by simp
  show ?thesis
    by (intro conjI w 1 4 5 sample_start_tag 2 3)
qed

text \<open>
  C9. The run over \<^verbatim>\<open>a.gpx\<close> and \<^verbatim>\<open>b.gpx\<close> returns and writes \<^verbatim>\<open>merged.gpx\<close> with four
  points. A second run whose only input is that file, as the first run wrote it, stops
  in \<^verbatim>\<open>parse_gpx_file\<close>: the parser refuses the file, the error line is printed and the
  process exits with status 1, with no point collected and nothing written. The sequence
  of points is not reproduced.
\<close>

theorem remerge_of_output_aborts:
  "fst (main iso_datetime sample_fs writable now [''a.gpx'', ''b.gpx''] ''merged.gpx''
          (initial 100)) = Returned
   \<and> written (snd (main iso_datetime sample_fs writable now [''a.gpx'', ''b.gpx'']
                      ''merged.gpx'' (initial 100))) = [(''merged.gpx'', sample_output now)]
   \<and> length (written_points (sample_output now)) = 4
   \<and> main iso_datetime
       (sample_fs(''merged.gpx'' := read_back otherwise position (sample_output now)))
       writable now' [''merged.gpx''] ''again.gpx'' (initial n) =
     (SystemExit 1,
      (initial n)\<lparr>stdout := [''Found 1 GPX file(s) to merge:'', ''  - merged.gpx'',
                               ''Processing: merged.gpx''],
                   stderr := [''Error: Invalid GPX file '' @ quoted ''merged.gpx'' @
                                '': duplicate attribute: '' @ position]\<rparr>)
   \<and> exit_status (fst (main iso_datetime
       (sample_fs(''merged.gpx'' := read_back otherwise position (sample_output now)))
       writable now' [''merged.gpx''] ''again.gpx'' (initial n))) = 1
   \<and> track_points (snd (main iso_datetime
       (sample_fs(''merged.gpx'' := read_back otherwise position (sample_output now)))
       writable now' [''merged.gpx''] ''again.gpx'' (initial n))) = []
   \<and> written (snd (main iso_datetime
       (sample_fs(''merged.gpx'' := read_back otherwise position (sample_output now)))
       writable now' [''merged.gpx''] ''again.gpx'' (initial n))) = []"
proof -
  have 1: "fst (main iso_datetime sample_fs writable now [''a.gpx'', ''b.gpx''] ''merged.gpx''
          (initial 100)) = Returned"
    by (simp add: sample_main)
  have 2: "written (snd (main iso_datetime sample_fs writable now [''a.gpx'', ''b.gpx'']
                      ''merged.gpx'' (initial 100))) = [(''merged.gpx'', sample_output now)]"
    by (simp add: sample_main)
  have 3: "length (written_points (sample_output now)) = 4"
    by (simp add: written_points_def find_child_def sample_output_def node_def leaf_def)
  have r: "read_back otherwise position (sample_output now) =
           NotWellFormed (''duplicate attribute: '' @ position)"
    by (simp add: read_back_def sample_start_tag)
  have s: "str_nat (Suc 0) = ''1''"
    by (subst str_nat.simps) simp
  have 4: "main iso_datetime
       (sample_fs(''merged.gpx'' := read_back otherwise position (sample_output now)))
       writable now' [''merged.gpx''] ''again.gpx'' (initial n) =
     (SystemExit 1,
      (initial n)\<lparr>stdout := [''Found 1 GPX file(s) to merge:'', ''  - merged.gpx'',
                               ''Processing: merged.gpx''],
                   stderr := [''Error: Invalid GPX file '' @ quoted ''merged.gpx'' @
                                '': duplicate attribute: '' @ position]\<rparr>)"
    by (simp add: main_def parse_gpx_file_def r initial_def s)
  show ?thesis
    unfolding 4 using 1 2 3 by (simp add: initial_def)
qed

end
